theory Spec2Isabelle
  imports Main "HOL-Library.Sublist"
begin

section \<open>Python values and string operations used by the package\<close>

text \<open>
  Strings are byte strings (\<open>char list\<close>), a Python string being its
  UTF-8 encoding. Values that travel through untyped
  dictionaries (YAML data, TOML connection entries, result dictionaries) are
  \<open>pyval\<close>; a dictionary inside a value is an association list whose first
  binding for a key is the one \<open>dict.get\<close> sees.
\<close>

datatype pyval =
    PNone
  | PBool bool
  | PInt int
  | PStr string
  | PList "pyval list"
  | PDict "(string \<times> pyval) list"

text \<open>Python truthiness, as used by \<open>x or default\<close> and \<open>if x\<close>.\<close>

fun truthy :: "pyval \<Rightarrow> bool" where
  "truthy PNone = False"
| "truthy (PBool b) = b"
| "truthy (PInt i) = (i \<noteq> 0)"
| "truthy (PStr s) = (s \<noteq> [])"
| "truthy (PList xs) = (xs \<noteq> [])"
| "truthy (PDict kvs) = (kvs \<noteq> [])"

datatype error =
    TypeError
  | AttributeError
  | ValueError
  | FileNotFoundError
  | OSError
  | YAMLError
  | ExternalError string
  | ConsoleError string

text \<open>
  The characters for which \<open>str.isspace()\<close> holds, in UTF-8, by the length
  of their encoding: the ASCII controls and the space; U+0085 and U+00A0;
  U+1680, U+2000 to U+200A, U+2028, U+2029, U+202F, U+205F and U+3000.
\<close>

definition space1 :: "string list" where
  "space1 = map (\<lambda>c. [c])
     [CHR 0x09, CHR 0x0A, CHR 0x0B, CHR 0x0C, CHR 0x0D,
      CHR 0x1C, CHR 0x1D, CHR 0x1E, CHR 0x1F, CHR 0x20]"

definition space2 :: "string list" where
  "space2 = [[CHR 0xC2, CHR 0x85], [CHR 0xC2, CHR 0xA0]]"

definition space3 :: "string list" where
  "space3 =
     [CHR 0xE1, CHR 0x9A, CHR 0x80]
     # map (\<lambda>c. [CHR 0xE2, CHR 0x80, c])
         [CHR 0x80, CHR 0x81, CHR 0x82, CHR 0x83, CHR 0x84, CHR 0x85, CHR 0x86, CHR 0x87,
          CHR 0x88, CHR 0x89, CHR 0x8A, CHR 0xA8, CHR 0xA9, CHR 0xAF]
     @ [[CHR 0xE2, CHR 0x81, CHR 0x9F], [CHR 0xE3, CHR 0x80, CHR 0x80]]"

text \<open>Drop the white space a string begins with; the three lists hold the
  encodings of one, two and three bytes.\<close>

fun strip_lead :: "string list \<Rightarrow> string list \<Rightarrow> string list \<Rightarrow> string \<Rightarrow> string" where
  "strip_lead s1 s2 s3 (a # b # c # rest) =
     (if [a] \<in> set s1 then strip_lead s1 s2 s3 (b # c # rest)
      else if [a, b] \<in> set s2 then strip_lead s1 s2 s3 (c # rest)
      else if [a, b, c] \<in> set s3 then strip_lead s1 s2 s3 rest
      else a # b # c # rest)"
| "strip_lead s1 s2 s3 [a, b] =
     (if [a] \<in> set s1 then strip_lead s1 s2 s3 [b]
      else if [a, b] \<in> set s2 then []
      else [a, b])"
| "strip_lead s1 s2 s3 [a] = (if [a] \<in> set s1 then [] else [a])"
| "strip_lead s1 s2 s3 [] = []"

text \<open>\<open>str.strip()\<close>: drop white space at both ends; the end is stripped on
  the reversed string, against the reversed encodings.\<close>

definition strip :: "string \<Rightarrow> string" where
  "strip s =
     rev (strip_lead space1 (map rev space2) (map rev space3)
            (rev (strip_lead space1 space2 space3 s)))"

text \<open>
  \<open>str.split(sep)\<close> for a one-character separator: always at least one piece,
  empty pieces kept.
\<close>

fun split_on :: "char \<Rightarrow> string \<Rightarrow> string list" where
  "split_on c [] = [[]]"
| "split_on c (x # xs) =
     (if x = c then [] # split_on c xs
      else (case split_on c xs of
              [] \<Rightarrow> [[x]]
            | y # ys \<Rightarrow> (x # y) # ys))"

text \<open>\<open>sep.join(xs)\<close>.\<close>

fun join :: "string \<Rightarrow> string list \<Rightarrow> string" where
  "join sep [] = []"
| "join sep [x] = x"
| "join sep (x # y # ys) = x @ sep @ join sep (y # ys)"

text \<open>
  \<open>str(Path(p))\<close> on a POSIX system: empty and \<open>.\<close> components are
  dropped, repeated slashes collapse, exactly two leading slashes are kept,
  and the empty path is \<open>.\<close>.
\<close>

definition Path_str :: "string \<Rightarrow> string" where
  "Path_str p =
     (let parts = filter (\<lambda>c. c \<noteq> [] \<and> c \<noteq> ''.'') (split_on CHR ''/'' p);
          root = (if prefix ''//'' p \<and> \<not> prefix ''///'' p then ''//''
                  else if prefix ''/'' p then ''/''
                  else [])
      in if root = [] \<and> parts = [] then ''.'' else root @ join ''/'' parts)"

text \<open>\<open>str.lower()\<close> on the ASCII letters.\<close>

definition lower_char :: "char \<Rightarrow> char" where
  "lower_char c =
     (case map_of (zip ''ABCDEFGHIJKLMNOPQRSTUVWXYZ'' ''abcdefghijklmnopqrstuvwxyz'') c of
        Some l \<Rightarrow> l
      | None \<Rightarrow> c)"

definition lower :: "string \<Rightarrow> string" where
  "lower s = map lower_char s"

text \<open>\<open>str(n)\<close> for an integer: decimal digits, a minus sign when negative.\<close>

fun str_nat :: "nat \<Rightarrow> string" where
  "str_nat n =
     (if n < 10 then [''0123456789'' ! n]
      else str_nat (n div 10) @ [''0123456789'' ! (n mod 10)])"

declare str_nat.simps [simp del]

definition str_int :: "int \<Rightarrow> string" where
  "str_int i = (if i < 0 then CHR ''-'' # str_nat (nat (- i)) else str_nat (nat i))"

text \<open>\<open>text.count(pattern)\<close> read position by position: the number of
  positions of the text at which the pattern starts.\<close>

fun count_sub :: "string \<Rightarrow> string \<Rightarrow> nat" where
  "count_sub p [] = (if p = [] then 1 else 0)"
| "count_sub p (x # xs) = (if prefix p (x # xs) then 1 else 0) + count_sub p xs"

section \<open>The outside world\<close>

text \<open>
  Everything the package reaches outside the process is a field of
  \<open>externals\<close>: the filesystem, the environment, the credential store, the
  connector, the SQL service, the job service, the \<open>snow\<close> command line
  and the console. The answers of a service may depend on what was sent
  before, so the service oracles take the history.

  \<open>console_print\<close> is \<open>rich\<close>'s \<open>Console.print\<close> on one message: it
  prints, or it raises with the given exception text. It interprets square
  brackets in the message as markup and raises MarkupError for a closing tag
  that nothing opened, so a message with interpolated text may be refused.
\<close>

datatype api_call =
    SubmitFileCall string string string nat "string list" "string list" "string list"
  | SubmitDirectoryCall string string string string nat int "string list" "string list" "string list"
  | JobStatusRead string
  | JobWait string int
  | JobResult string

datatype proc_outcome =
    Completed int string string
  | CliMissing
  | OtherFailure string

record externals =
  package_base :: string
  path_exists :: "string \<Rightarrow> bool"
  read_yaml :: "string \<Rightarrow> error + pyval"
  getenv_connection_name :: "string option"
  connections :: "string \<rightharpoonup> (string \<rightharpoonup> pyval)"
  load_private_key :: "pyval \<Rightarrow> error + pyval"
  connector_connect :: "(string \<rightharpoonup> pyval) \<Rightarrow> error option"
  session_sql :: "(nat \<times> string) list \<Rightarrow> nat \<Rightarrow> string \<Rightarrow> string option"
  ml_submit :: "api_call list \<Rightarrow> api_call \<Rightarrow> error + string"
  ml_status :: "api_call list \<Rightarrow> string \<Rightarrow> error + string"
  ml_wait :: "api_call list \<Rightarrow> string \<Rightarrow> int \<Rightarrow> error option"
  ml_result :: "api_call list \<Rightarrow> string \<Rightarrow> error + pyval"
  copytree :: "string \<Rightarrow> string list \<Rightarrow> error + string"
  subprocess_run :: "string list \<Rightarrow> (string \<times> string) list \<Rightarrow> proc_outcome"
  console_print :: "string \<Rightarrow> string option"

text \<open>
  How \<open>get_session\<close> was called: without an argument, with the connection
  name given positionally, or with it given by keyword.
\<close>

datatype call_args =
    NoArgs
  | Positional "string option"
  | Keyword "string option"

text \<open>
  The process state the package changes: the single slot of the session cache,
  the connections opened so far (a session handle is its index in
  \<open>opened\<close>), the statements sent to the SQL service, the calls made to the
  job service, and the messages printed on the console.
\<close>

record world =
  cache :: "(call_args \<times> nat) option"
  opened :: "string list"
  executed :: "(nat \<times> string) list"
  api_log :: "api_call list"
  printed :: "string list"

text \<open>Sequencing of steps that change the world and may raise.\<close>

definition and_then ::
  "(world \<Rightarrow> (error + 'a) \<times> world) \<Rightarrow> ('a \<Rightarrow> world \<Rightarrow> (error + 'b) \<times> world) \<Rightarrow>
   world \<Rightarrow> (error + 'b) \<times> world" where
  "and_then m f w = (case m w of (Inl e, w') \<Rightarrow> (Inl e, w') | (Inr x, w') \<Rightarrow> f x w')"

definition done_with :: "'a \<Rightarrow> world \<Rightarrow> (error + 'a) \<times> world" where
  "done_with x w = (Inr x, w)"

text \<open>One \<open>console.print(message)\<close>, and a run of them in order; a refused
  message raises and the later ones are not printed.\<close>

definition console_say :: "externals \<Rightarrow> string \<Rightarrow> world \<Rightarrow> (error + unit) \<times> world" where
  "console_say ex message w =
     (case console_print ex message of
        Some text \<Rightarrow> (Inl (ConsoleError text), w)
      | None \<Rightarrow> (Inr (), w\<lparr>printed := printed w @ [message]\<rparr>))"

fun say_all :: "externals \<Rightarrow> string list \<Rightarrow> world \<Rightarrow> (error + unit) \<times> world" where
  "say_all ex [] w = (Inr (), w)"
| "say_all ex (message # rest) w =
     (case console_say ex message w of
        (Inl e, w') \<Rightarrow> (Inl e, w')
      | (Inr u, w') \<Rightarrow> say_all ex rest w')"

text \<open>The prints under \<open>if verbose:\<close>.\<close>

definition say_if :: "bool \<Rightarrow> externals \<Rightarrow> string list \<Rightarrow> world \<Rightarrow> (error + unit) \<times> world" where
  "say_if verbose ex messages w = (if verbose then say_all ex messages w else (Inr (), w))"

section \<open>config.py\<close>

record ComputeConfig =
  cc_pool_name :: pyval
  cc_instance_family :: pyval
  cc_min_nodes :: pyval
  cc_max_nodes :: pyval

record StorageConfig =
  sc_stage_name :: pyval
  sc_encryption :: pyval

record NetworkConfig =
  nc_eai_name :: pyval
  nc_allow_ports :: pyval

record ProjectConfig =
  pc_name :: pyval
  pc_database :: pyval

record Config =
  cfg_connection_name :: pyval
  project :: ProjectConfig
  compute :: ComputeConfig
  storage :: StorageConfig
  network :: NetworkConfig

text \<open>The dataclass defaults.\<close>

definition ComputeConfig_default :: ComputeConfig where
  "ComputeConfig_default =
     \<lparr>cc_pool_name = PStr ''ml_dev_pool'', cc_instance_family = PStr ''CPU_X64_M'',
      cc_min_nodes = PInt 1, cc_max_nodes = PInt 1\<rparr>"

definition StorageConfig_default :: StorageConfig where
  "StorageConfig_default =
     \<lparr>sc_stage_name = PStr ''DEV_STAGE'', sc_encryption = PStr ''SNOWFLAKE_SSE''\<rparr>"

definition NetworkConfig_default :: NetworkConfig where
  "NetworkConfig_default =
     \<lparr>nc_eai_name = PStr ''ALLOW_ALL_INTEGRATION'',
      nc_allow_ports = PList [PInt 443, PInt 80]\<rparr>"

definition ProjectConfig_default :: ProjectConfig where
  "ProjectConfig_default = \<lparr>pc_name = PStr ''ml_dev'', pc_database = PStr ''ML_DEV''\<rparr>"

definition Config_default :: Config where
  "Config_default =
     \<lparr>cfg_connection_name = PStr ''default'', project = ProjectConfig_default,
      compute = ComputeConfig_default, storage = StorageConfig_default,
      network = NetworkConfig_default\<rparr>"

text \<open>\<open>d.get(key, default)\<close>.\<close>

definition dict_get :: "(string \<times> pyval) list \<Rightarrow> string \<Rightarrow> pyval \<Rightarrow> pyval" where
  "dict_get d k dflt = (case map_of d k of Some v \<Rightarrow> v | None \<Rightarrow> dflt)"

text \<open>
  \<open>Cls(**kwargs)\<close> for a dataclass: a keyword that is not a field raises
  TypeError, a field that is not given takes its default, and no value is
  checked against the annotation.
\<close>

definition kwargs_ok :: "string list \<Rightarrow> (string \<times> pyval) list \<Rightarrow> bool" where
  "kwargs_ok names kwargs = list_all (\<lambda>kv. fst kv \<in> set names) kwargs"

definition ProjectConfig_init :: "(string \<times> pyval) list \<Rightarrow> error + ProjectConfig" where
  "ProjectConfig_init kw =
     (if kwargs_ok [''name'', ''database''] kw
      then Inr \<lparr>pc_name = dict_get kw ''name'' (pc_name ProjectConfig_default),
                pc_database = dict_get kw ''database'' (pc_database ProjectConfig_default)\<rparr>
      else Inl TypeError)"

definition ComputeConfig_init :: "(string \<times> pyval) list \<Rightarrow> error + ComputeConfig" where
  "ComputeConfig_init kw =
     (if kwargs_ok [''pool_name'', ''instance_family'', ''min_nodes'', ''max_nodes''] kw
      then Inr \<lparr>cc_pool_name = dict_get kw ''pool_name'' (cc_pool_name ComputeConfig_default),
                cc_instance_family =
                  dict_get kw ''instance_family'' (cc_instance_family ComputeConfig_default),
                cc_min_nodes = dict_get kw ''min_nodes'' (cc_min_nodes ComputeConfig_default),
                cc_max_nodes = dict_get kw ''max_nodes'' (cc_max_nodes ComputeConfig_default)\<rparr>
      else Inl TypeError)"

definition StorageConfig_init :: "(string \<times> pyval) list \<Rightarrow> error + StorageConfig" where
  "StorageConfig_init kw =
     (if kwargs_ok [''stage_name'', ''encryption''] kw
      then Inr \<lparr>sc_stage_name = dict_get kw ''stage_name'' (sc_stage_name StorageConfig_default),
                sc_encryption = dict_get kw ''encryption'' (sc_encryption StorageConfig_default)\<rparr>
      else Inl TypeError)"

definition NetworkConfig_init :: "(string \<times> pyval) list \<Rightarrow> error + NetworkConfig" where
  "NetworkConfig_init kw =
     (if kwargs_ok [''eai_name'', ''allow_ports''] kw
      then Inr \<lparr>nc_eai_name = dict_get kw ''eai_name'' (nc_eai_name NetworkConfig_default),
                nc_allow_ports =
                  dict_get kw ''allow_ports'' (nc_allow_ports NetworkConfig_default)\<rparr>
      else Inl TypeError)"

text \<open>
  \<open>Cls(**section) if section else Cls()\<close>: a falsy section gives the
  defaults; a truthy one must be a mapping to be unpacked.
\<close>

definition section_of ::
  "((string \<times> pyval) list \<Rightarrow> error + 'a) \<Rightarrow> 'a \<Rightarrow> pyval \<Rightarrow> error + 'a" where
  "section_of init dflt sect =
     (if truthy sect
      then (case sect of PDict kw \<Rightarrow> init kw | _ \<Rightarrow> Inl TypeError)
      else Inr dflt)"

definition from_dict :: "(string \<times> pyval) list \<Rightarrow> error + Config" where
  "from_dict data =
     (let project_data = dict_get data ''project'' (PDict []);
          compute_data = dict_get data ''compute'' (PDict []);
          storage_data = dict_get data ''storage'' (PDict []);
          network_data = dict_get data ''network'' (PDict [])
      in case section_of ProjectConfig_init ProjectConfig_default project_data of
           Inl e \<Rightarrow> Inl e
         | Inr p \<Rightarrow>
        (case section_of ComputeConfig_init ComputeConfig_default compute_data of
           Inl e \<Rightarrow> Inl e
         | Inr c \<Rightarrow>
        (case section_of StorageConfig_init StorageConfig_default storage_data of
           Inl e \<Rightarrow> Inl e
         | Inr s \<Rightarrow>
        (case section_of NetworkConfig_init NetworkConfig_default network_data of
           Inl e \<Rightarrow> Inl e
         | Inr n \<Rightarrow>
           Inr \<lparr>cfg_connection_name = dict_get data ''connection_name'' (PStr ''default''),
                project = p, compute = c, storage = s, network = n\<rparr>))))"

definition to_dict :: "Config \<Rightarrow> (string \<times> pyval) list" where
  "to_dict self =
     [(''connection_name'', cfg_connection_name self),
      (''project'', PDict [(''name'', pc_name (project self)),
                          (''database'', pc_database (project self))]),
      (''compute'', PDict [(''pool_name'', cc_pool_name (compute self)),
                          (''instance_family'', cc_instance_family (compute self)),
                          (''min_nodes'', cc_min_nodes (compute self)),
                          (''max_nodes'', cc_max_nodes (compute self))]),
      (''storage'', PDict [(''stage_name'', sc_stage_name (storage self)),
                          (''encryption'', sc_encryption (storage self))]),
      (''network'', PDict [(''eai_name'', nc_eai_name (network self)),
                          (''allow_ports'', nc_allow_ports (network self))])]"

text \<open>
  \<open>Config.load\<close>. An empty \<open>config_path\<close> is falsy and counts as not given.
  \<open>read_yaml\<close> stands for \<open>open\<close> followed by \<open>yaml.safe_load\<close>; a loaded
  value that is not a mapping has no \<open>get\<close>.
\<close>

definition load :: "externals \<Rightarrow> string option \<Rightarrow> error + Config" where
  "load ex config_path =
     (let path =
            (case config_path of
               Some (c # cs) \<Rightarrow> c # cs
             | _ \<Rightarrow>
               (let user_config = package_base ex @ ''/config/config.yaml'';
                    default_config = package_base ex @ ''/config/default.yaml''
                in if path_exists ex user_config then user_config else default_config))
      in if \<not> path_exists ex path then Inr Config_default
         else (case read_yaml ex path of
                 Inl e \<Rightarrow> Inl e
               | Inr loaded \<Rightarrow>
                 (case (if truthy loaded then loaded else PDict []) of
                    PDict data \<Rightarrow> from_dict data
                  | _ \<Rightarrow> Inl AttributeError)))"

section \<open>session.py\<close>

text \<open>\<open>x or default\<close> for an optional string and for an optional list.\<close>

definition or_else :: "'a list option \<Rightarrow> 'a list \<Rightarrow> 'a list" where
  "or_else x dflt = (case x of Some (c # cs) \<Rightarrow> c # cs | _ \<Rightarrow> dflt)"

text \<open>
  \<open>_get_connection_config\<close>. A missing credential file and a file without a
  \<open>connections\<close> table are both the empty store.
\<close>

definition get_connection_config :: "externals \<Rightarrow> string \<Rightarrow> error + (string \<rightharpoonup> pyval)" where
  "get_connection_config ex connection_name =
     (case connections ex connection_name of
        None \<Rightarrow> Inl ValueError
      | Some conn_config \<Rightarrow>
          if conn_config ''authenticator'' = Some (PStr ''SNOWFLAKE_JWT'')
          then (let key_path = (case conn_config ''private_key_path'' of
                                  Some v \<Rightarrow> v | None \<Rightarrow> PNone);
                    popped = conn_config(''private_key_path'' := None)
                in if truthy key_path
                   then (case load_private_key ex key_path of
                           Inl e \<Rightarrow> Inl e
                         | Inr key \<Rightarrow>
                             Inr ((popped(''private_key'' \<mapsto> key))(''authenticator'' := None)))
                   else Inr (popped(''authenticator'' := None)))
          else Inr conn_config)"

text \<open>
  The body of \<open>get_session\<close>: resolve the name, read the credentials, connect.
  The new handle is the index of the connection in \<open>opened\<close>.
  \<open>connector_connect\<close> covers the connector and the session builder.
\<close>

definition get_session_body ::
  "externals \<Rightarrow> world \<Rightarrow> string option \<Rightarrow> (error + nat) \<times> world" where
  "get_session_body ex w connection_name =
     (let conn_name =
            or_else connection_name
              (case getenv_connection_name ex of Some v \<Rightarrow> v | None \<Rightarrow> ''myconnection'')
      in case get_connection_config ex conn_name of
           Inl e \<Rightarrow> (Inl e, w)
         | Inr conn_config \<Rightarrow>
             (case connector_connect ex conn_config of
                Some e \<Rightarrow> (Inl e, w)
              | None \<Rightarrow> (Inr (length (opened w)), w\<lparr>opened := opened w @ [conn_name]\<rparr>)))"

text \<open>The value the parameter \<open>connection_name\<close> takes in a call; its default
  is None.\<close>

definition passed_name :: "call_args \<Rightarrow> string option" where
  "passed_name call = (case call of NoArgs \<Rightarrow> None | Positional v \<Rightarrow> v | Keyword v \<Rightarrow> v)"

text \<open>
  \<open>@lru_cache(maxsize=1)\<close> around the body. The key of an entry is the
  call as it was written: the positional arguments and the keyword
  arguments, so the same name given positionally and given by keyword are
  two keys, and so are no argument and an explicit None. A hit returns the
  stored handle without running the body; a miss runs the body and, when it
  returns, stores the result in the single slot in place of whatever was
  there; a raised exception stores nothing.
\<close>

definition get_session ::
  "externals \<Rightarrow> world \<Rightarrow> call_args \<Rightarrow> (error + nat) \<times> world" where
  "get_session ex w call =
     (let miss =
            (case get_session_body ex w (passed_name call) of
               (Inl e, w') \<Rightarrow> (Inl e, w')
             | (Inr session, w') \<Rightarrow>
                 (Inr session, w'\<lparr>cache := Some (call, session)\<rparr>))
      in case cache w of
           None \<Rightarrow> miss
         | Some (key, session) \<Rightarrow>
             if key = call then (Inr session, w) else miss)"

definition clear_session_cache :: "world \<Rightarrow> world" where
  "clear_session_cache w = w\<lparr>cache := None\<rparr>"

section \<open>remote/setup.py and remote/teardown.py\<close>

text \<open>The statements that \<open>setup\<close> and \<open>teardown\<close> send: the pieces of the
  text between semicolons, stripped, without the empty pieces and without the
  pieces that begin with a comment marker.\<close>

definition statements :: "string \<Rightarrow> string list" where
  "statements sql =
     map strip (filter (\<lambda>s. strip s \<noteq> [] \<and> \<not> prefix ''--'' (strip s)) (split_on CHR '';'' sql))"


text \<open>
  The loop over the statements: each one is sent to the session; an
  exception is caught and, when verbose, printed as a warning, and the loop
  goes on. The print of the warning stands in the handler, so a warning that
  the console refuses raises out of the loop.
\<close>

fun run_statements ::
  "externals \<Rightarrow> bool \<Rightarrow> nat \<Rightarrow> string list \<Rightarrow> world \<Rightarrow> (error + unit) \<times> world" where
  "run_statements ex verbose session [] w = (Inr (), w)"
| "run_statements ex verbose session (stmt # rest) w =
     (if stmt \<noteq> []
      then (case session_sql ex (executed w) session stmt of
              None \<Rightarrow>
                run_statements ex verbose session rest
                  (w\<lparr>executed := executed w @ [(session, stmt)]\<rparr>)
            | Some e \<Rightarrow>
                (case say_if verbose ex [''[yellow]Warning:[/] '' @ e]
                        (w\<lparr>executed := executed w @ [(session, stmt)]\<rparr>) of
                   (Inl err, w') \<Rightarrow> (Inl err, w')
                 | (Inr u, w') \<Rightarrow> run_statements ex verbose session rest w'))
      else run_statements ex verbose session rest w)"

definition port_list_of :: "int list \<Rightarrow> string" where
  "port_list_of allow_ports =
     join '', '' (map (\<lambda>port. [CHR 0x27] @ ''0.0.0.0:'' @ str_int port @ [CHR 0x27]) allow_ports)"

text \<open>The text of the f-string of \<open>setup\<close>, line by line; every line of the
  template ends with a line break.\<close>

definition setup_sql ::
  "string \<Rightarrow> string \<Rightarrow> string \<Rightarrow> string \<Rightarrow> string \<Rightarrow> string \<Rightarrow> int \<Rightarrow> int \<Rightarrow> string \<Rightarrow> string" where
  "setup_sql project_name database eai_name port_list stage_name pool_name
             min_nodes max_nodes instance_family =
     concat (map (\<lambda>l. l @ ''\<newline>'')
       [''-- Snowflake Remote Dev Setup'',
        ''-- Project: '' @ project_name,
        [],
        ''USE ROLE ACCOUNTADMIN;'',
        [],
        ''-- Create Database'',
        ''CREATE DATABASE IF NOT EXISTS '' @ database @ '';'',
        ''USE DATABASE '' @ database @ '';'',
        [],
        ''-- Create Network Rule for External Access'',
        ''CREATE OR REPLACE NETWORK RULE '' @ eai_name @ ''_rule'',
        ''  MODE = EGRESS'',
        ''  TYPE = HOST_PORT'',
        ''  VALUE_LIST = ('' @ port_list @ '');'',
        [],
        ''-- Create External Access Integration'',
        ''CREATE OR REPLACE EXTERNAL ACCESS INTEGRATION '' @ eai_name,
        ''  ALLOWED_NETWORK_RULES = ('' @ eai_name @ ''_rule)'',
        ''  ENABLED = true;'',
        [],
        ''-- Grant permissions'',
        ''GRANT USAGE ON INTEGRATION '' @ eai_name @ '' TO ROLE ACCOUNTADMIN;'',
        [],
        ''-- Create Stage for Persistent Storage'',
        ''CREATE STAGE IF NOT EXISTS '' @ stage_name,
        ''  ENCRYPTION = (TYPE = '' @ [CHR 0x27] @ ''SNOWFLAKE_SSE'' @ [CHR 0x27] @ '');'',
        [],
        ''-- Create Compute Pool'',
        ''CREATE COMPUTE POOL IF NOT EXISTS '' @ pool_name,
        ''  MIN_NODES = '' @ str_int min_nodes,
        ''  MAX_NODES = '' @ str_int max_nodes,
        ''  INSTANCE_FAMILY = '' @ instance_family @ '';'',
        [],
        ''-- Show created resources'',
        ''SHOW COMPUTE POOLS LIKE '' @ [CHR 0x27] @ pool_name @ [CHR 0x27] @ '';''])"

text \<open>
  \<open>setup\<close> of the source (\<open>setup_infra\<close> here, the plain name being
  reserved), with its parameters in the order of the source. The result is
  the dictionary it returns. The marker in the completion message is the
  byte sequence the source file holds.
\<close>

definition setup_infra ::
  "externals \<Rightarrow> world \<Rightarrow> string \<Rightarrow> string \<Rightarrow> string \<Rightarrow> string \<Rightarrow> string \<Rightarrow> string option \<Rightarrow>
   string \<Rightarrow> int list option \<Rightarrow> int \<Rightarrow> int \<Rightarrow> bool \<Rightarrow> bool \<Rightarrow>
   (error + (string \<times> pyval) list) \<times> world" where
  "setup_infra ex w connection_name project_name database instance_family stage_name pool_name
               eai_name allow_ports min_nodes max_nodes execute verbose =
     (let pool_name = or_else pool_name (project_name @ ''_pool'');
          allow_ports = or_else allow_ports [443, 80];
          port_list = port_list_of allow_ports;
          sql = setup_sql project_name database eai_name port_list stage_name pool_name
                  min_nodes max_nodes instance_family;
          result = [(''database'', PStr database),
                    (''compute_pool'', PStr pool_name),
                    (''stage'', PStr stage_name),
                    (''eai_name'', PStr eai_name),
                    (''instance_family'', PStr instance_family),
                    (''sql'', PStr sql)]
      in and_then
           (say_if verbose ex
              [''[bold blue]Setting up remote dev environment[/]'',
               ''  Project: '' @ project_name,
               ''  Database: '' @ database,
               ''  Compute Pool: '' @ pool_name @ '' ('' @ instance_family @ '')'',
               ''  Stage: '' @ stage_name])
           (\<lambda>u.
              if execute
              then and_then
                     (say_if verbose ex [''\<newline>[yellow]SQL to execute:[/]'', sql, []])
                     (\<lambda>u.
                   and_then (\<lambda>w. get_session ex w (Positional (Some connection_name)))
                     (\<lambda>session.
                   and_then (run_statements ex verbose session (statements sql))
                     (\<lambda>u.
                   and_then
                     (say_if verbose ex
                        [''\<newline>[bold green]'' @ [CHR 0xC3, CHR 0xA2, CHR 0xC5, CHR 0x93, CHR 0xE2, CHR 0x80, CHR 0x9C] @ '' Setup complete![/]'',
                         ''\<newline>Next steps:'',
                         ''  1. Wait 2-3 minutes for compute pool to start'',
                         ''  2. Run: connect('' @ [CHR 0x27] @ connection_name @ [CHR 0x27]
                           @ '', '' @ [CHR 0x27] @ project_name @ [CHR 0x27] @ '')''])
                     (\<lambda>u. done_with (result @ [(''status'', PStr ''complete'')])))))
              else done_with (result @ [(''status'', PStr ''sql_generated'')])) w)"

text \<open>The parts \<open>teardown\<close> collects, joined by line breaks.\<close>

definition teardown_sql_parts ::
  "string \<Rightarrow> string \<Rightarrow> string \<Rightarrow> string \<Rightarrow> string \<Rightarrow> bool \<Rightarrow> bool \<Rightarrow> string list" where
  "teardown_sql_parts project_name database pool_name stage_name eai_name
                      keep_stage keep_database =
     [''-- Teardown for project: '' @ project_name,
      ''USE ROLE ACCOUNTADMIN;'',
      ''\<newline>-- Suspend and drop compute pool'',
      ''ALTER COMPUTE POOL IF EXISTS '' @ pool_name @ '' STOP ALL;'',
      ''ALTER COMPUTE POOL IF EXISTS '' @ pool_name @ '' SUSPEND;'',
      ''DROP COMPUTE POOL IF EXISTS '' @ pool_name @ '';'',
      ''\<newline>-- Drop External Access Integration'',
      ''DROP INTEGRATION IF EXISTS '' @ eai_name @ '';'',
      ''DROP NETWORK RULE IF EXISTS '' @ database @ ''.PUBLIC.'' @ eai_name @ ''_rule;'']
     @ (if \<not> keep_stage
        then [''\<newline>-- Drop Stage (WARNING: deletes all files!)'',
              ''DROP STAGE IF EXISTS '' @ database @ ''.PUBLIC.'' @ stage_name @ '';'']
        else [])
     @ (if \<not> keep_database
        then [''\<newline>-- Drop Database'',
              ''DROP DATABASE IF EXISTS '' @ database @ '';'']
        else [])"

definition teardown_sql ::
  "string \<Rightarrow> string \<Rightarrow> string \<Rightarrow> string \<Rightarrow> string \<Rightarrow> bool \<Rightarrow> bool \<Rightarrow> string" where
  "teardown_sql project_name database pool_name stage_name eai_name keep_stage keep_database =
     join ''\<newline>'' (teardown_sql_parts project_name database pool_name stage_name eai_name
                        keep_stage keep_database)"

definition teardown ::
  "externals \<Rightarrow> world \<Rightarrow> string \<Rightarrow> string \<Rightarrow> string \<Rightarrow> string option \<Rightarrow> string \<Rightarrow> string \<Rightarrow>
   bool \<Rightarrow> bool \<Rightarrow> bool \<Rightarrow> bool \<Rightarrow> (error + (string \<times> pyval) list) \<times> world" where
  "teardown ex w connection_name project_name database pool_name stage_name eai_name
            keep_stage keep_database execute verbose =
     (let pool_name = or_else pool_name (project_name @ ''_pool'');
          sql = teardown_sql project_name database pool_name stage_name eai_name
                  keep_stage keep_database;
          result = [(''project_name'', PStr project_name),
                    (''database'', PStr database),
                    (''compute_pool'', PStr pool_name),
                    (''stage_preserved'', PBool keep_stage),
                    (''database_preserved'', PBool keep_database),
                    (''sql'', PStr sql)]
      in and_then
           (say_if verbose ex
              ([''[bold yellow]Tearing down remote dev environment[/]'',
                ''  Project: '' @ project_name,
                ''  Compute Pool: '' @ pool_name,
                (if keep_stage then ''  Stage: '' @ stage_name @ '' [green](preserved)[/]''
                 else ''  Stage: '' @ stage_name @ '' [red](will be deleted!)[/]'')]
               @ (if keep_database then [''  Database: '' @ database @ '' [green](preserved)[/]'']
                  else [])))
           (\<lambda>u.
              if execute
              then and_then
                     (say_if verbose ex [''\<newline>[yellow]SQL to execute:[/]'', sql, []])
                     (\<lambda>u.
                   and_then (\<lambda>w. get_session ex w (Positional (Some connection_name)))
                     (\<lambda>session.
                   and_then (run_statements ex verbose session (statements sql))
                     (\<lambda>u.
                   and_then
                     (say_if verbose ex
                        [''\<newline>[bold green]'' @ [CHR 0xE2, CHR 0x9C, CHR 0x93] @ '' Teardown complete![/]''])
                     (\<lambda>u. done_with (result @ [(''status'', PStr ''complete'')])))))
              else done_with (result @ [(''status'', PStr ''sql_generated'')])) w)"

section \<open>jobs/submit.py\<close>

text \<open>The calls to the job service: each is logged and answered by the
  service. The job handle is the job id; \<open>job.status\<close> asks the service.\<close>

definition submit_job :: "externals \<Rightarrow> api_call \<Rightarrow> world \<Rightarrow> (error + string) \<times> world" where
  "submit_job ex c w = (ml_submit ex (api_log w) c, w\<lparr>api_log := api_log w @ [c]\<rparr>)"

definition job_status :: "externals \<Rightarrow> string \<Rightarrow> world \<Rightarrow> (error + string) \<times> world" where
  "job_status ex job w =
     (ml_status ex (api_log w) job, w\<lparr>api_log := api_log w @ [JobStatusRead job]\<rparr>)"

definition job_wait :: "externals \<Rightarrow> string \<Rightarrow> int \<Rightarrow> world \<Rightarrow> (error + unit) \<times> world" where
  "job_wait ex job timeout w =
     ((case ml_wait ex (api_log w) job timeout of Some e \<Rightarrow> Inl e | None \<Rightarrow> Inr ()),
      w\<lparr>api_log := api_log w @ [JobWait job timeout]\<rparr>)"

definition job_result :: "externals \<Rightarrow> string \<Rightarrow> world \<Rightarrow> (error + pyval) \<times> world" where
  "job_result ex job w =
     (ml_result ex (api_log w) job, w\<lparr>api_log := api_log w @ [JobResult job]\<rparr>)"

text \<open>\<open>result[key] = value\<close>.\<close>

definition dict_set :: "(string \<times> pyval) list \<Rightarrow> string \<Rightarrow> pyval \<Rightarrow> (string \<times> pyval) list" where
  "dict_set d k v =
     (if k \<in> set (map fst d) then map (\<lambda>kv. if fst kv = k then (k, v) else kv) d
      else d @ [(k, v)])"

text \<open>A verbose print of a message that interpolates \<open>job.status\<close>: the status
  is read, then the message is printed.\<close>

definition say_status ::
  "bool \<Rightarrow> externals \<Rightarrow> string \<Rightarrow> (string \<Rightarrow> string) \<Rightarrow> world \<Rightarrow> (error + unit) \<times> world" where
  "say_status verbose ex job message =
     (if verbose
      then and_then (job_status ex job) (\<lambda>status. console_say ex (message status))
      else done_with ())"

text \<open>
  What follows the submission in both functions: the job id and the status
  printed when verbose, the result record built with a status read from the
  service, and under \<open>wait\<close> the wait itself, the status read again, and
  the result fetched on a best-effort basis.
\<close>

definition after_submit ::
  "externals \<Rightarrow> string \<Rightarrow> (string \<Rightarrow> (string \<times> pyval) list) \<Rightarrow> bool \<Rightarrow> int \<Rightarrow> bool \<Rightarrow>
   world \<Rightarrow> (error + (string \<times> pyval) list) \<times> world" where
  "after_submit ex job record_with wait timeout verbose =
     and_then (say_if verbose ex [''  Job ID: '' @ job]) (\<lambda>u.
     and_then (say_status verbose ex job (\<lambda>status. ''  Status: '' @ status)) (\<lambda>u.
     and_then (job_status ex job) (\<lambda>status.
     let result = record_with status
     in if wait
        then and_then
               (say_if verbose ex
                  [''[dim]Waiting for completion (timeout: '' @ str_int timeout @ ''s)...[/]''])
               (\<lambda>u.
             and_then (job_wait ex job timeout) (\<lambda>u.
             and_then (job_status ex job) (\<lambda>status.
             let result = dict_set result ''status'' (PStr status)
             in
             and_then
               (say_status verbose ex job
                  (\<lambda>status. ''[bold green]'' @ [CHR 0xE2, CHR 0x9C, CHR 0x93]
                              @ '' Job complete: '' @ status @ ''[/]''))
               (\<lambda>u.
             (\<lambda>w. case job_result ex job w of
                    (Inl e, w') \<Rightarrow> (Inr result, w')
                  | (Inr fetched, w') \<Rightarrow>
                      (Inr (if truthy fetched then dict_set result ''result'' fetched
                            else result), w'))))))
        else done_with result)))"

text \<open>The optional line about the requirements.\<close>

definition requirements_line :: "string list option \<Rightarrow> string list" where
  "requirements_line pip_requirements =
     (case pip_requirements of
        Some (r # rs) \<Rightarrow> [''  Requirements: '' @ join '', '' (r # rs)]
      | _ \<Rightarrow> [])"

text \<open>\<open>path_exists\<close> is \<open>Path(file_path).exists()\<close>.\<close>

definition submit_file ::
  "externals \<Rightarrow> world \<Rightarrow> string \<Rightarrow> string \<Rightarrow> string option \<Rightarrow> string list option \<Rightarrow>
   string list option \<Rightarrow> string \<Rightarrow> string list option \<Rightarrow> bool \<Rightarrow> int \<Rightarrow> bool \<Rightarrow>
   (error + (string \<times> pyval) list) \<times> world" where
  "submit_file ex w file_path compute_pool connection_name pip_requirements args stage_name
               external_access_integrations wait timeout verbose =
     (if \<not> path_exists ex file_path then (Inl FileNotFoundError, w)
      else
        and_then (\<lambda>w. get_session ex w (Positional connection_name)) (\<lambda>session.
        let eais = or_else external_access_integrations [''ALLOW_ALL_INTEGRATION'']
        in
        and_then
          (say_if verbose ex
             ([''[bold blue]Submitting ML Job[/]'',
               ''  File: '' @ Path_str file_path,
               ''  Compute Pool: '' @ compute_pool]
              @ requirements_line pip_requirements))
          (\<lambda>u.
        and_then (submit_job ex (SubmitFileCall (Path_str file_path) compute_pool stage_name
                                   session (or_else pip_requirements []) eais
                                   (or_else args []))) (\<lambda>job.
        after_submit ex job
          (\<lambda>status. [(''job_id'', PStr job), (''status'', PStr status),
                      (''file'', PStr (Path_str file_path)),
                      (''compute_pool'', PStr compute_pool)])
          wait timeout verbose))) w)"

text \<open>\<open>copytree\<close> stands for the copy into the temporary directory with the
  exclude patterns applied; it answers with the path of the clean copy.\<close>

definition submit_directory ::
  "externals \<Rightarrow> world \<Rightarrow> string \<Rightarrow> string \<Rightarrow> string \<Rightarrow> string option \<Rightarrow> string list option \<Rightarrow>
   string list option \<Rightarrow> string \<Rightarrow> int \<Rightarrow> string list option \<Rightarrow> bool \<Rightarrow> int \<Rightarrow> bool \<Rightarrow>
   string list option \<Rightarrow> (error + (string \<times> pyval) list) \<times> world" where
  "submit_directory ex w dir_path entrypoint compute_pool connection_name pip_requirements args
                    stage_name target_instances external_access_integrations wait timeout
                    verbose exclude_patterns =
     (if \<not> path_exists ex dir_path then (Inl FileNotFoundError, w)
      else
        and_then (\<lambda>w. get_session ex w (Positional connection_name)) (\<lambda>session.
        let exclude = or_else exclude_patterns
                        [''__pycache__'', ''*.pyc'', ''.pytest_cache'', ''.git''];
            eais = or_else external_access_integrations [''ALLOW_ALL_INTEGRATION'']
        in
        and_then
          (say_if verbose ex
             ([''[bold blue]Submitting ML Job (directory)[/]'',
               ''  Directory: '' @ Path_str dir_path,
               ''  Entrypoint: '' @ entrypoint,
               ''  Compute Pool: '' @ compute_pool,
               ''  Instances: '' @ str_int target_instances]
              @ requirements_line pip_requirements))
          (\<lambda>u.
        and_then (\<lambda>w. (copytree ex (Path_str dir_path) exclude, w)) (\<lambda>clean_dir.
        and_then (submit_job ex (SubmitDirectoryCall clean_dir entrypoint compute_pool
                                   stage_name session target_instances
                                   (or_else pip_requirements []) eais (or_else args [])))
          (\<lambda>job.
        after_submit ex job
          (\<lambda>status. [(''job_id'', PStr job), (''status'', PStr status),
                      (''directory'', PStr (Path_str dir_path)),
                      (''entrypoint'', PStr entrypoint),
                      (''compute_pool'', PStr compute_pool),
                      (''instances'', PInt target_instances)])
          wait timeout verbose)))) w)"

section \<open>remote/disconnect.py\<close>

text \<open>
  \<open>disconnect\<close>: the command line and the environment additions it builds,
  what the \<open>try\<close> block does with the outcome of \<open>subprocess.run\<close>, and
  the two handlers around it. \<open>CliMissing\<close> is the FileNotFoundError raised
  for an absent binary, \<open>OtherFailure\<close> any other exception of the run, with
  its text. Every message goes through the console, also inside the
  \<open>try\<close> block and inside the handlers.
\<close>

definition disconnect_cmd :: "string \<Rightarrow> string option \<Rightarrow> string list" where
  "disconnect_cmd name connection_name =
     [''snow'', ''remote'', ''stop'', ''--name'', name]
     @ (case connection_name of
          Some (c # cs) \<Rightarrow> [''--connection'', c # cs]
        | _ \<Rightarrow> [])"

definition disconnect_env :: "string option \<Rightarrow> (string \<times> string) list" where
  "disconnect_env connection_name =
     (case connection_name of
        Some (c # cs) \<Rightarrow> [(''SNOWFLAKE_DEFAULT_CONNECTION_NAME'', c # cs)]
      | _ \<Rightarrow> [])"

text \<open>\<open>str(e)\<close> for the exceptions that carry their text.\<close>

definition exception_text :: "error \<Rightarrow> string" where
  "exception_text e = (case e of ExternalError m \<Rightarrow> m | ConsoleError m \<Rightarrow> m | _ \<Rightarrow> [])"

definition disconnect_try ::
  "externals \<Rightarrow> string \<Rightarrow> string option \<Rightarrow> world \<Rightarrow> (error + bool) \<times> world" where
  "disconnect_try ex name connection_name w =
     (case subprocess_run ex (disconnect_cmd name connection_name)
             (disconnect_env connection_name) of
        Completed returncode out err \<Rightarrow>
          if returncode = 0
          then and_then
                 (say_all ex
                    [''[green]Service '' @ [CHR 0x27] @ name @ [CHR 0x27] @ '' stopped successfully[/]'',
                     ''[dim]Your files on stage are preserved. Use connect() to restart.[/]''])
                 (\<lambda>u. done_with True) w
          else if sublist ''not found'' (lower err) \<or> sublist ''does not exist'' (lower err)
               then and_then
                      (say_all ex
                         [''[yellow]Service '' @ [CHR 0x27] @ name @ [CHR 0x27]
                          @ '' not found or already stopped[/]''])
                      (\<lambda>u. done_with True) w
               else and_then
                      (say_all ex [''[red]Failed to stop service:[/] '' @ err])
                      (\<lambda>u. done_with False) w
      | CliMissing \<Rightarrow> (Inl FileNotFoundError, w)
      | OtherFailure text \<Rightarrow> (Inl (ExternalError text), w))"

definition disconnect ::
  "externals \<Rightarrow> world \<Rightarrow> string \<Rightarrow> string option \<Rightarrow> (error + bool) \<times> world" where
  "disconnect ex w name connection_name =
     and_then (say_all ex [''[yellow]Stopping remote dev service:[/] '' @ name])
       (\<lambda>u w.
          case disconnect_try ex name connection_name w of
            (Inr verdict, w') \<Rightarrow> (Inr verdict, w')
          | (Inl e, w') \<Rightarrow>
              if e = FileNotFoundError
              then and_then
                     (say_all ex
                        [''[red]Error:[/] '' @ [CHR 0x27] @ ''snow'' @ [CHR 0x27]
                         @ '' CLI not found. Install with: pip install snowflake-cli''])
                     (\<lambda>u. done_with False) w'
              else and_then
                     (say_all ex [''[red]Error stopping service:[/] '' @ exception_text e])
                     (\<lambda>u. done_with False) w') w"

section \<open>Concrete surroundings for the examples\<close>

text \<open>
  A machine on which no file exists, the credential store is empty, every
  service answers without error and the console prints every message; the
  examples below vary it field by field.
\<close>

definition bare_externals :: externals where
  "bare_externals =
     \<lparr>package_base = ''/opt/sfml'',
      path_exists = (\<lambda>p. False),
      read_yaml = (\<lambda>p. Inl OSError),
      getenv_connection_name = None,
      connections = Map.empty,
      load_private_key = (\<lambda>p. Inl OSError),
      connector_connect = (\<lambda>c. None),
      session_sql = (\<lambda>h s q. None),
      ml_submit = (\<lambda>h c. Inr ''job''),
      ml_status = (\<lambda>h j. Inr ''PENDING''),
      ml_wait = (\<lambda>h j t. None),
      ml_result = (\<lambda>h j. Inr PNone),
      copytree = (\<lambda>p x. Inr p),
      subprocess_run = (\<lambda>c e. CliMissing),
      console_print = (\<lambda>m. None)\<rparr>"

definition two_connections :: externals where
  "two_connections =
     bare_externals\<lparr>connections := [''alpha'' \<mapsto> Map.empty, ''beta'' \<mapsto> Map.empty]\<rparr>"

definition fresh_world :: world where
  "fresh_world = \<lparr>cache = None, opened = [], executed = [], api_log = [], printed = []\<rparr>"

text \<open>The slot of the cache, when filled, holds a handle that was opened.\<close>

definition cache_valid :: "world \<Rightarrow> bool" where
  "cache_valid w = (case cache w of None \<Rightarrow> True | Some (key, session) \<Rightarrow> session < length (opened w))"

definition cli_says_not_found :: externals where
  "cli_says_not_found =
     bare_externals\<lparr>subprocess_run := (\<lambda>c e. Completed 1 [] ''Error: Service DEV NOT FOUND'')\<rparr>"

definition cli_says_denied :: externals where
  "cli_says_denied =
     bare_externals\<lparr>subprocess_run := (\<lambda>c e. Completed 2 [] ''Error: permission denied'')\<rparr>"

text \<open>
  A command line that fails with a path in square brackets in its stderr, and
  a console that, as rich does for a closing tag that nothing opened,
  refuses every message holding \<open>[/tmp/x]\<close>; the text of the refusal
  quotes the tag.
\<close>

definition cli_stderr_with_tag :: externals where
  "cli_stderr_with_tag =
     bare_externals
       \<lparr>subprocess_run :=
          (\<lambda>c e. Completed 1 [] ''Error: cannot read [/tmp/x] permission denied''),
        console_print :=
          (\<lambda>m. if sublist ''[/tmp/x]'' m
                then Some (''closing tag '' @ [CHR 0x27] @ ''[/tmp/x]'' @ [CHR 0x27]
                           @ '' does not match any open tag'')
                else None)\<rparr>"

text \<open>
  What \<open>from_dict\<close> accepts as the value of a section: a falsy value, or a
  mapping whose keys are all fields of the section's dataclass.
\<close>

definition section_accepted :: "string list \<Rightarrow> pyval \<Rightarrow> bool" where
  "section_accepted names v =
     (\<not> truthy v \<or> (case v of PDict kw \<Rightarrow> kwargs_ok names kw | _ \<Rightarrow> False))"

definition alpha_cached :: world where
  "alpha_cached =
     fresh_world\<lparr>cache := Some (Positional (Some ''alpha''), 0), opened := [''alpha'']\<rparr>"

definition beta_cached :: world where
  "beta_cached =
     fresh_world\<lparr>cache := Some (Positional (Some ''beta''), 1),
                  opened := [''alpha'', ''beta'']\<rparr>"

text \<open>
  Whether an occurrence of the pattern can begin before a piece of text and
  end inside it: some proper, non-empty suffix of the pattern is a prefix of
  the text.
\<close>

fun clash :: "string \<Rightarrow> string \<Rightarrow> bool" where
  "clash [] rest = False"
| "clash (p # ps) rest = ((ps \<noteq> [] \<and> prefix ps rest) \<or> clash ps rest)"

text \<open>The \<open>sql\<close> field of what \<open>setup\<close> or \<open>teardown\<close> returned; empty when
  the call raised.\<close>

definition sql_of :: "error + (string \<times> pyval) list \<Rightarrow> string" where
  "sql_of r = (case r of
                 Inl e \<Rightarrow> []
               | Inr result \<Rightarrow> (case map_of result ''sql'' of Some (PStr s) \<Rightarrow> s | _ \<Rightarrow> []))"

section \<open>Configuration: round trip and missing files\<close>

text \<open>
  C10. Serialising a configuration with \<open>to_dict\<close> and rebuilding it with
  \<open>from_dict\<close> returns the configuration it started from, for every
  configuration value: no field is lost or renamed.
\<close>

theorem from_dict_to_dict_identity: "from_dict (to_dict c) = Inr c"
  by (simp add: from_dict_def to_dict_def dict_get_def section_of_def
      ProjectConfig_init_def ComputeConfig_init_def StorageConfig_init_def
      NetworkConfig_init_def kwargs_ok_def)

text \<open>
  C2, as the code has it. \<open>Config.load\<close> raises nothing for a missing path:
  an explicitly given path that does not exist yields the built-in defaults,
  and so does a call without a path when neither the user file nor the
  default file exists.
\<close>

theorem load_missing_path_yields_defaults:
  "(p \<noteq> [] \<and> \<not> path_exists ex p \<longrightarrow> load ex (Some p) = Inr Config_default)
   \<and> (\<not> path_exists ex (package_base ex @ ''/config/config.yaml'')
      \<and> \<not> path_exists ex (package_base ex @ ''/config/default.yaml'')
      \<longrightarrow> load ex None = Inr Config_default)"
  by (cases p) (simp_all add: load_def)

theorem load_missing_path_yields_defaults_witness:
  "load bare_externals (Some ''missing.yaml'') = Inr Config_default
   \<and> load bare_externals None = Inr Config_default"
  using load_missing_path_yields_defaults [of "''missing.yaml''" bare_externals]
  by (simp add: bare_externals_def)

text \<open>
  C2, as the claim states it, fails: on a machine where \<open>missing.yaml\<close> does
  not exist, loading that explicit path is not an error.
\<close>

theorem load_explicit_missing_path_no_error:
  "\<not> path_exists bare_externals ''missing.yaml''
   \<and> \<not> isl (load bare_externals (Some ''missing.yaml''))"
  by (simp add: load_def bare_externals_def)

section \<open>Steps and console messages\<close>

lemma and_then_InrE:
  assumes "and_then m f w = (Inr r, w')"
  obtains x w1 where "m w = (Inr x, w1)" "f x w1 = (Inr r, w')"
proof -
  obtain a w1 where mw: "m w = (a, w1)" by (cases "m w")
  show ?thesis
  proof (cases a)
    case (Inl e)
    with mw assms show ?thesis by (simp add: and_then_def)
  next
    case (Inr x)
    with mw assms have "f x w1 = (Inr r, w')" by (simp add: and_then_def)
    with mw Inr that show ?thesis by blast
  qed
qed


lemma say_all_accepted:
  "(\<And>m. console_print ex m = None) \<Longrightarrow>
   say_all ex ms w = (Inr (), w\<lparr>printed := printed w @ ms\<rparr>)"
  by (induction ms arbitrary: w) (simp_all add: console_say_def)


lemma say_all_listed:
  "list_all (\<lambda>m. console_print ex m = None) ms \<Longrightarrow>
   say_all ex ms w = (Inr (), w\<lparr>printed := printed w @ ms\<rparr>)"
  by (induction ms arbitrary: w) (simp_all add: console_say_def)


lemma say_if_accepted:
  "verbose \<longrightarrow> (\<forall>m. console_print ex m = None) \<Longrightarrow>
   \<exists>w'. say_if verbose ex ms w = (Inr (), w') \<and> executed w' = executed w"
  by (cases verbose) (simp_all add: say_if_def say_all_accepted)


section \<open>Disconnect\<close>

text \<open>
  On a console that prints every message, a non-zero exit gives True exactly
  when the lower-cased stderr contains \<open>not found\<close> or \<open>does not exist\<close>,
  and a missing binary gives False.
\<close>

lemma disconnect_verdict_when_printed:
  assumes "\<And>m. console_print ex m = None"
  shows "(subprocess_run ex (disconnect_cmd name connection_name)
            (disconnect_env connection_name) = Completed returncode out err
          \<and> returncode \<noteq> 0
          \<longrightarrow> fst (disconnect ex w name connection_name)
              = Inr (sublist ''not found'' (lower err) \<or> sublist ''does not exist'' (lower err)))
       \<and> (subprocess_run ex (disconnect_cmd name connection_name)
            (disconnect_env connection_name) = CliMissing
          \<longrightarrow> fst (disconnect ex w name connection_name) = Inr False)"
  by (simp add: disconnect_def disconnect_try_def and_then_def done_with_def
      console_say_def assms)

text \<open>
  When the console prints the opening message and refuses both the message
  that carries the stderr and the message that carries the text of that
  refusal, the call raises out of the handler.
\<close>

lemma disconnect_raises_when_refused:
  assumes "console_print ex (''[yellow]Stopping remote dev service:[/] '' @ name) = None"
    and "subprocess_run ex (disconnect_cmd name connection_name)
           (disconnect_env connection_name) = Completed returncode out err"
    and "returncode \<noteq> 0"
    and "\<not> sublist ''not found'' (lower err)" "\<not> sublist ''does not exist'' (lower err)"
    and "console_print ex (''[red]Failed to stop service:[/] '' @ err) = Some refusal"
    and "console_print ex (''[red]Error stopping service:[/] '' @ refusal) = Some again"
  shows "fst (disconnect ex w name connection_name) = Inl (ConsoleError again)"
  using assms
  by (simp add: disconnect_def disconnect_try_def and_then_def done_with_def console_say_def
      exception_text_def)

lemma stderr_with_tag_run:
  "subprocess_run cli_stderr_with_tag c e
     = Completed 1 [] ''Error: cannot read [/tmp/x] permission denied''"
  by (simp add: cli_stderr_with_tag_def bare_externals_def)

lemma stderr_with_tag_console:
  "console_print cli_stderr_with_tag m
     = (if sublist ''[/tmp/x]'' m
        then Some (''closing tag '' @ [CHR 0x27] @ ''[/tmp/x]'' @ [CHR 0x27]
                   @ '' does not match any open tag'')
        else None)"
  by (simp add: cli_stderr_with_tag_def bare_externals_def)

text \<open>
  C9. The claim gives False for every non-zero exit whose stderr does not
  match. The code means to (its handler for every exception returns False)
  but prints the stderr, and then the text of the exception, through the
  console's markup: for a stderr that holds a closing tag such as
  \<open>[/tmp/x]\<close> both prints are refused and \<open>disconnect\<close> raises instead
  of returning False.
\<close>

theorem disconnect_raises_on_stderr_with_tag:
  "fst (disconnect cli_stderr_with_tag fresh_world ''dev'' None)
     = Inl (ConsoleError (''closing tag '' @ [CHR 0x27] @ ''[/tmp/x]'' @ [CHR 0x27]
                          @ '' does not match any open tag''))"
  by (rule disconnect_raises_when_refused
        [where returncode = 1 and out = "[]"
           and err = "''Error: cannot read [/tmp/x] permission denied''"
           and refusal = "''closing tag '' @ [CHR 0x27] @ ''[/tmp/x]'' @ [CHR 0x27]
                          @ '' does not match any open tag''"])
     (simp_all add: stderr_with_tag_run stderr_with_tag_console sublist_code lower_def
        lower_char_def)

section \<open>Configuration: omitted sections\<close>

lemma section_of_absent: "section_of init dflt (PDict []) = Inr dflt"
  by (simp add: section_of_def)

lemma section_of_accepted:
  "section_accepted names v \<Longrightarrow> (\<And>kw. kwargs_ok names kw \<Longrightarrow> \<exists>r. init kw = Inr r)
   \<Longrightarrow> \<exists>r. section_of init dflt v = Inr r"
  by (cases v) (auto simp: section_of_def section_accepted_def)

lemma load_of_mapping:
  "p \<noteq> [] \<Longrightarrow> path_exists ex p \<Longrightarrow> read_yaml ex p = Inr (PDict data) \<Longrightarrow>
   load ex (Some p) = from_dict data"
  by (cases p; cases data) (simp_all add: load_def)

text \<open>
  C6. Whatever dictionary \<open>from_dict\<close> turns into a configuration, each of
  the sections project, compute, storage and network that the dictionary
  omits has its dataclass defaults in that configuration; an omitted network
  section gives ports \<open>[443, 80]\<close> and the name \<open>ALLOW_ALL_INTEGRATION\<close>.
  A configuration is produced whenever every section that is present is
  falsy or a mapping of that section's field names, and \<open>load\<close> of an
  existing file holding the dictionary is \<open>from_dict\<close> of it.
\<close>

theorem from_dict_omitted_sections_default:
  "(from_dict data = Inr c \<longrightarrow>
      (map_of data ''project'' = None \<longrightarrow> project c = ProjectConfig_default)
    \<and> (map_of data ''compute'' = None \<longrightarrow> compute c = ComputeConfig_default)
    \<and> (map_of data ''storage'' = None \<longrightarrow> storage c = StorageConfig_default)
    \<and> (map_of data ''network'' = None \<longrightarrow>
         network c = \<lparr>nc_eai_name = PStr ''ALLOW_ALL_INTEGRATION'',
                       nc_allow_ports = PList [PInt 443, PInt 80]\<rparr>))
   \<and> (section_accepted [''name'', ''database''] (dict_get data ''project'' (PDict []))
    \<and> section_accepted [''pool_name'', ''instance_family'', ''min_nodes'', ''max_nodes'']
          (dict_get data ''compute'' (PDict []))
    \<and> section_accepted [''stage_name'', ''encryption''] (dict_get data ''storage'' (PDict []))
    \<and> section_accepted [''eai_name'', ''allow_ports''] (dict_get data ''network'' (PDict []))
    \<longrightarrow> (\<exists>c'. from_dict data = Inr c'))
   \<and> (p \<noteq> [] \<and> path_exists ex p \<and> read_yaml ex p = Inr (PDict data)
    \<longrightarrow> load ex (Some p) = from_dict data)"
proof (intro conjI impI)
  assume r: "from_dict data = Inr c"
  { assume "map_of data ''project'' = None"
    with r show "project c = ProjectConfig_default"
      by (auto simp: from_dict_def dict_get_def section_of_absent split: sum.splits) }
  { assume "map_of data ''compute'' = None"
    with r show "compute c = ComputeConfig_default"
      by (auto simp: from_dict_def dict_get_def section_of_absent split: sum.splits) }
  { assume "map_of data ''storage'' = None"
    with r show "storage c = StorageConfig_default"
      by (auto simp: from_dict_def dict_get_def section_of_absent split: sum.splits) }
  { assume "map_of data ''network'' = None"
    with r show "network c = \<lparr>nc_eai_name = PStr ''ALLOW_ALL_INTEGRATION'',
                       nc_allow_ports = PList [PInt 443, PInt 80]\<rparr>"
      by (auto simp: from_dict_def dict_get_def section_of_absent NetworkConfig_default_def
          split: sum.splits) }
next
  assume a: "section_accepted [''name'', ''database''] (dict_get data ''project'' (PDict []))
    \<and> section_accepted [''pool_name'', ''instance_family'', ''min_nodes'', ''max_nodes'']
          (dict_get data ''compute'' (PDict []))
    \<and> section_accepted [''stage_name'', ''encryption''] (dict_get data ''storage'' (PDict []))
    \<and> section_accepted [''eai_name'', ''allow_ports''] (dict_get data ''network'' (PDict []))"
  obtain pr where pr: "section_of ProjectConfig_init ProjectConfig_default
                         (dict_get data ''project'' (PDict [])) = Inr pr"
    using a section_of_accepted[of "[''name'', ''database'']" _ ProjectConfig_init]
    by (auto simp: ProjectConfig_init_def)
  obtain co where co: "section_of ComputeConfig_init ComputeConfig_default
                         (dict_get data ''compute'' (PDict [])) = Inr co"
    using a section_of_accepted[of "[''pool_name'', ''instance_family'', ''min_nodes'',
                                      ''max_nodes'']" _ ComputeConfig_init]
    by (auto simp: ComputeConfig_init_def)
  obtain st where st: "section_of StorageConfig_init StorageConfig_default
                         (dict_get data ''storage'' (PDict [])) = Inr st"
    using a section_of_accepted[of "[''stage_name'', ''encryption'']" _ StorageConfig_init]
    by (auto simp: StorageConfig_init_def)
  obtain ne where ne: "section_of NetworkConfig_init NetworkConfig_default
                         (dict_get data ''network'' (PDict [])) = Inr ne"
    using a section_of_accepted[of "[''eai_name'', ''allow_ports'']" _ NetworkConfig_init]
    by (auto simp: NetworkConfig_init_def)
  show "\<exists>c'. from_dict data = Inr c'"
    by (simp add: from_dict_def pr co st ne)
next
  assume "p \<noteq> [] \<and> path_exists ex p \<and> read_yaml ex p = Inr (PDict data)"
  then show "load ex (Some p) = from_dict data"
    by (simp add: load_of_mapping)
qed

lemma from_dict_project_only:
  "from_dict [(''project'', PDict [(''name'', PStr ''demo'')])] =
     Inr \<lparr>cfg_connection_name = PStr ''default'',
          project = \<lparr>pc_name = PStr ''demo'', pc_database = PStr ''ML_DEV''\<rparr>,
          compute = ComputeConfig_default, storage = StorageConfig_default,
          network = NetworkConfig_default\<rparr>"
  by (simp add: from_dict_def dict_get_def section_of_def ProjectConfig_init_def kwargs_ok_def
      ProjectConfig_default_def)

theorem from_dict_omitted_sections_default_witness:
  "from_dict [(''project'', PDict [(''name'', PStr ''demo'')])] =
     Inr \<lparr>cfg_connection_name = PStr ''default'',
          project = \<lparr>pc_name = PStr ''demo'', pc_database = PStr ''ML_DEV''\<rparr>,
          compute = ComputeConfig_default, storage = StorageConfig_default,
          network = NetworkConfig_default\<rparr>
   \<and> NetworkConfig_default = \<lparr>nc_eai_name = PStr ''ALLOW_ALL_INTEGRATION'',
                                nc_allow_ports = PList [PInt 443, PInt 80]\<rparr>
   \<and> section_accepted [''name'', ''database''] (PDict [(''name'', PStr ''demo'')])"
  using from_dict_omitted_sections_default
          [of "[(''project'', PDict [(''name'', PStr ''demo'')])]"
              "\<lparr>cfg_connection_name = PStr ''default'',
                project = \<lparr>pc_name = PStr ''demo'', pc_database = PStr ''ML_DEV''\<rparr>,
                compute = ComputeConfig_default, storage = StorageConfig_default,
                network = NetworkConfig_default\<rparr>"]
        from_dict_project_only
  by (simp add: section_accepted_def kwargs_ok_def)

section \<open>Job submission: the path is checked first\<close>

text \<open>
  C7. When the path does not exist, \<open>submit_file\<close> and \<open>submit_directory\<close>
  raise FileNotFoundError and leave the world exactly as it was: no session
  was obtained (the cache and the opened connections are unchanged) and the
  job service was not called (its log is unchanged).
\<close>

theorem submit_missing_path_raises_first:
  "\<not> path_exists ex p \<Longrightarrow>
     submit_file ex w p compute_pool connection_name pip_requirements args stage_name
       external_access_integrations wait timeout verbose = (Inl FileNotFoundError, w)
   \<and> submit_directory ex w p entrypoint compute_pool connection_name pip_requirements args
       stage_name target_instances external_access_integrations wait timeout verbose
       exclude_patterns = (Inl FileNotFoundError, w)"
  by (simp add: submit_file_def submit_directory_def)

theorem submit_missing_path_raises_first_witness:
  "\<not> path_exists bare_externals ''nope.py''
   \<and> submit_file bare_externals fresh_world ''nope.py'' ''POOL'' None None None
        ''ML_JOBS_STAGE'' None False 3600 True = (Inl FileNotFoundError, fresh_world)
   \<and> submit_directory bare_externals fresh_world ''nope.py'' ''train.py'' ''POOL'' None None
        None ''ML_JOBS_STAGE'' 1 None False 3600 True None = (Inl FileNotFoundError, fresh_world)"
  using submit_missing_path_raises_first
          [of bare_externals "''nope.py''" fresh_world "''POOL''" None None None
              "''ML_JOBS_STAGE''" None False 3600 True "''train.py''" 1 None]
  by (simp add: bare_externals_def)

section \<open>The session cache\<close>


lemma get_session_body_cases:
  "(\<exists>e. get_session_body ex w n = (Inl e, w))
   \<or> get_session_body ex w n =
       (Inr (length (opened w)),
        w\<lparr>opened := opened w @ [or_else n (case getenv_connection_name ex of
                                               None \<Rightarrow> ''myconnection'' | Some v \<Rightarrow> v)]\<rparr>)"
  unfolding get_session_body_def Let_def
  by (cases "get_connection_config ex (or_else n (case getenv_connection_name ex of None \<Rightarrow> ''myconnection'' | Some v \<Rightarrow> v))";
      cases "getenv_connection_name ex"; simp split: option.split)

lemma get_session_body_Inr:
  "get_session_body ex w n = (Inr h, w') \<Longrightarrow>
     h = length (opened w) \<and> cache w' = cache w \<and> length (opened w') = Suc (length (opened w))"
  using get_session_body_cases[of ex w n] by auto

lemma get_session_body_Inl: "get_session_body ex w n = (Inl e, w') \<Longrightarrow> w' = w"
  using get_session_body_cases[of ex w n] by auto

lemma get_session_hit:
  "cache w = Some (n, h) \<Longrightarrow> get_session ex w n = (Inr h, w)"
  by (simp add: get_session_def Let_def)

lemma get_session_miss_eq:
  "cache w = None \<or> (\<exists>k h. cache w = Some (k, h) \<and> k \<noteq> n) \<Longrightarrow>
   get_session ex w n =
     (case get_session_body ex w (passed_name n) of
        (Inl e, w') \<Rightarrow> (Inl e, w')
      | (Inr session, w') \<Rightarrow> (Inr session, w'\<lparr>cache := Some (n, session)\<rparr>))"
  by (auto simp: get_session_def Let_def)

lemma get_session_miss:
  assumes "cache w = None \<or> (\<exists>k h. cache w = Some (k, h) \<and> k \<noteq> n)"
    and "get_session ex w n = (Inr h', w')"
  shows "h' = length (opened w) \<and> cache w' = Some (n, h')
         \<and> length (opened w') = Suc (length (opened w))"
proof -
  obtain r wb where b: "get_session_body ex w (passed_name n) = (r, wb)" by (cases "get_session_body ex w (passed_name n)")
  show ?thesis
  proof (cases r)
    case (Inl e)
    with assms b show ?thesis by (simp add: get_session_miss_eq)
  next
    case (Inr s)
    with b have "s = length (opened w) \<and> length (opened wb) = Suc (length (opened w))"
      using get_session_body_Inr[of ex w "passed_name n" s wb] by simp
    with assms b Inr show ?thesis by (auto simp: get_session_miss_eq)
  qed
qed

lemma get_session_Inr_cache:
  assumes "get_session ex w n = (Inr h, w')" shows "cache w' = Some (n, h)"
proof (cases "cache w = Some (n, h)")
  case True
  with assms show ?thesis by (simp add: get_session_hit)
next
  case False
  show ?thesis
  proof (cases "cache w = None \<or> (\<exists>k h. cache w = Some (k, h) \<and> k \<noteq> n)")
    case True
    with assms show ?thesis using get_session_miss by blast
  next
    case False
    then obtain h0 where "cache w = Some (n, h0)" by (cases "cache w") auto
    with assms show ?thesis by (simp add: get_session_hit)
  qed
qed

lemma get_session_Inl:
  assumes "get_session ex w n = (Inl e, w')" shows "w' = w"
proof (cases "cache w = None \<or> (\<exists>k h. cache w = Some (k, h) \<and> k \<noteq> n)")
  case True
  obtain r wb where b: "get_session_body ex w (passed_name n) = (r, wb)" by (cases "get_session_body ex w (passed_name n)")
  with assms True show ?thesis
    using get_session_body_Inl[of ex w "passed_name n" _ wb]
    by (cases r) (auto simp: get_session_miss_eq)
next
  case False
  then obtain h0 where "cache w = Some (n, h0)" by (cases "cache w") auto
  with assms show ?thesis by (simp add: get_session_hit)
qed

lemma get_session_handle_bound:
  assumes "cache_valid w" "get_session ex w n = (Inr h, w')"
  shows "h < length (opened w')"
proof (cases "cache w = None \<or> (\<exists>k h. cache w = Some (k, h) \<and> k \<noteq> n)")
  case True
  with assms(2) show ?thesis using get_session_miss[of w n ex h w'] by simp
next
  case False
  then obtain h0 where c: "cache w = Some (n, h0)" by (cases "cache w") auto
  with assms show ?thesis by (simp add: get_session_hit cache_valid_def)
qed

lemma fresh_after_miss:
  assumes "cache_valid w" "get_session ex w n = (Inr h, w1)"
    and "cache wm = None \<or> (\<exists>k. cache wm = Some (k, h) \<and> k \<noteq> n')"
    and "opened wm = opened w1"
    and "get_session ex wm n' = (Inr h', w2)"
  shows "h' = length (opened w1) \<and> h' \<noteq> h \<and> cache w2 = Some (n', h')
          \<and> length (opened w2) = Suc (length (opened w1))"
proof -
  have b: "h < length (opened w1)" using assms(1,2) by (rule get_session_handle_bound)
  have "cache wm = None \<or> (\<exists>k h. cache wm = Some (k, h) \<and> k \<noteq> n')" using assms(3) by blast
  then have "h' = length (opened wm) \<and> cache w2 = Some (n', h')
       \<and> length (opened w2) = Suc (length (opened wm))"
    using assms(5) by (rule get_session_miss)
  with b assms(4) show ?thesis by simp
qed


text \<open>Two connections in the credential store, calls evaluated.\<close>

lemma cc_alpha: "get_connection_config two_connections ''alpha'' = Inr Map.empty"
  by (simp add: get_connection_config_def two_connections_def bare_externals_def)

lemma cc_beta: "get_connection_config two_connections ''beta'' = Inr Map.empty"
  by (simp add: get_connection_config_def two_connections_def bare_externals_def)

lemma tc_fields: "getenv_connection_name two_connections = None"
  "connector_connect two_connections = (\<lambda>c. None)"
  by (simp_all add: two_connections_def bare_externals_def)

lemma body_alpha: "get_session_body two_connections w (Some ''alpha'')
   = (Inr (length (opened w)), w\<lparr>opened := opened w @ [''alpha'']\<rparr>)"
  by (simp add: get_session_body_def or_else_def cc_alpha tc_fields)

lemma body_beta: "get_session_body two_connections w (Some ''beta'')
   = (Inr (length (opened w)), w\<lparr>opened := opened w @ [''beta'']\<rparr>)"
  by (simp add: get_session_body_def or_else_def cc_beta tc_fields)

lemma get_session_alpha_first:
  "get_session two_connections fresh_world (Positional (Some ''alpha''))
   = (Inr 0, alpha_cached)"
  by (simp add: get_session_def passed_name_def body_alpha fresh_world_def alpha_cached_def)

lemma get_session_beta_second:
  "get_session two_connections alpha_cached (Positional (Some ''beta''))
   = (Inr 1, beta_cached)"
  by (simp add: get_session_def passed_name_def body_beta fresh_world_def alpha_cached_def
      beta_cached_def)


lemma get_session_beta_after_clear:
  "get_session two_connections
     (clear_session_cache alpha_cached) (Positional (Some ''beta''))
   = (Inr 1, beta_cached)"
  by (simp add: get_session_def passed_name_def body_beta fresh_world_def
      clear_session_cache_def alpha_cached_def beta_cached_def)


lemma get_session_alpha_by_keyword:
  "get_session two_connections alpha_cached (Keyword (Some ''alpha''))
   = (Inr 1, alpha_cached\<lparr>cache := Some (Keyword (Some ''alpha''), 1),
                           opened := [''alpha'', ''alpha'']\<rparr>)"
  by (simp add: get_session_def passed_name_def body_alpha alpha_cached_def fresh_world_def)

text \<open>
  C8, as the code has it. A second call of \<open>get_session\<close> written like the
  first (the same connection name, passed the same way) with no cache-clear
  in between returns the same handle and leaves the world as it is, so no
  second connection is opened. After a cache-clear, a call that connects,
  with a different name or not, returns a handle that was not opened before,
  hence different from the first.
\<close>

theorem get_session_same_call_same_handle:
  "(get_session ex w c = (Inr h, w1) \<longrightarrow> get_session ex w1 c = (Inr h, w1))
   \<and> (cache_valid w \<and> get_session ex w c = (Inr h, w1)
       \<and> get_session ex (clear_session_cache w1) c' = (Inr h', w2)
      \<longrightarrow> h' = length (opened w1) \<and> h' \<noteq> h \<and> cache w2 = Some (c', h')
          \<and> length (opened w2) = Suc (length (opened w1)))"
proof -
  have A: "get_session ex w c = (Inr h, w1) \<longrightarrow> get_session ex w1 c = (Inr h, w1)"
  proof
    assume "get_session ex w c = (Inr h, w1)"
    then have "cache w1 = Some (c, h)" by (rule get_session_Inr_cache)
    then show "get_session ex w1 c = (Inr h, w1)" by (rule get_session_hit)
  qed
  have B: "cache_valid w \<and> get_session ex w c = (Inr h, w1)
       \<and> get_session ex (clear_session_cache w1) c' = (Inr h', w2)
      \<longrightarrow> h' = length (opened w1) \<and> h' \<noteq> h \<and> cache w2 = Some (c', h')
          \<and> length (opened w2) = Suc (length (opened w1))"
  proof
    assume a: "cache_valid w \<and> get_session ex w c = (Inr h, w1)
       \<and> get_session ex (clear_session_cache w1) c' = (Inr h', w2)"
    show "h' = length (opened w1) \<and> h' \<noteq> h \<and> cache w2 = Some (c', h')
          \<and> length (opened w2) = Suc (length (opened w1))"
      by (rule fresh_after_miss[of w ex c h w1 "clear_session_cache w1" c' h' w2])
         (use a in \<open>simp_all add: clear_session_cache_def\<close>)
  qed
  from A B show ?thesis by (rule conjI)
qed

theorem get_session_same_call_same_handle_witness:
  "get_session two_connections fresh_world (Positional (Some ''alpha'')) = (Inr 0, alpha_cached)
   \<and> get_session two_connections alpha_cached (Positional (Some ''alpha'')) = (Inr 0, alpha_cached)
   \<and> get_session two_connections (clear_session_cache alpha_cached) (Positional (Some ''beta''))
       = (Inr 1, beta_cached)
   \<and> (1::nat) = length (opened alpha_cached) \<and> (1::nat) \<noteq> 0"
proof -
  have v: "cache_valid fresh_world" by (simp add: cache_valid_def fresh_world_def)
  note t = get_session_same_call_same_handle
             [of two_connections fresh_world "Positional (Some ''alpha'')" 0 alpha_cached "Positional (Some ''beta'')" 1 beta_cached]
  from t get_session_alpha_first
  have a: "get_session two_connections alpha_cached (Positional (Some ''alpha'')) = (Inr 0, alpha_cached)"
    by blast
  from t v get_session_alpha_first get_session_beta_after_clear
  have b: "(1::nat) = length (opened alpha_cached) \<and> (1::nat) \<noteq> 0" by blast
  from a b get_session_alpha_first get_session_beta_after_clear show ?thesis by blast
qed

text \<open>
  C8, as the claim states it, fails: the name \<open>alpha\<close> passed positionally
  and then by keyword, with no cache-clear in between, makes two cache keys;
  the second call opens a second connection and returns handle 1, not
  handle 0.
\<close>

theorem get_session_same_name_by_keyword_reconnects:
  "fst (get_session two_connections fresh_world (Positional (Some ''alpha''))) = Inr 0
   \<and> fst (get_session two_connections
             (snd (get_session two_connections fresh_world (Positional (Some ''alpha''))))
             (Keyword (Some ''alpha''))) = Inr 1
   \<and> opened (snd (get_session two_connections
                     (snd (get_session two_connections fresh_world (Positional (Some ''alpha''))))
                     (Keyword (Some ''alpha'')))) = [''alpha'', ''alpha'']"
  by (simp add: get_session_alpha_first get_session_alpha_by_keyword)

text \<open>
  C3, as the code has it. With two distinct connection names and no
  cache-clear in between (more generally, with two calls that differ in the
  name or in the way it is passed), a second call that connects opens a new
  handle, different from the first, and that handle takes the place of the
  first in the single slot of the cache; a second call that raises leaves
  the world as it was.
\<close>

theorem get_session_other_name_replaces_handle:
  "(cache_valid w \<and> get_session ex w c1 = (Inr h1, w1) \<and> c2 \<noteq> c1
       \<and> get_session ex w1 c2 = (Inr h2, w2)
      \<longrightarrow> h2 = length (opened w1) \<and> h2 \<noteq> h1 \<and> cache w2 = Some (c2, h2)
          \<and> length (opened w2) = Suc (length (opened w1)))
   \<and> (get_session ex w1 c2 = (Inl e, w2) \<longrightarrow> w2 = w1)"
proof -
  have A: "cache_valid w \<and> get_session ex w c1 = (Inr h1, w1) \<and> c2 \<noteq> c1
       \<and> get_session ex w1 c2 = (Inr h2, w2)
      \<longrightarrow> h2 = length (opened w1) \<and> h2 \<noteq> h1 \<and> cache w2 = Some (c2, h2)
          \<and> length (opened w2) = Suc (length (opened w1))"
  proof
    assume a: "cache_valid w \<and> get_session ex w c1 = (Inr h1, w1) \<and> c2 \<noteq> c1
       \<and> get_session ex w1 c2 = (Inr h2, w2)"
    then have c: "cache w1 = Some (c1, h1)" using get_session_Inr_cache by blast
    show "h2 = length (opened w1) \<and> h2 \<noteq> h1 \<and> cache w2 = Some (c2, h2)
          \<and> length (opened w2) = Suc (length (opened w1))"
      by (rule fresh_after_miss[of w ex c1 h1 w1 w1 c2 h2 w2]) (use a c in auto)
  qed
  have B: "get_session ex w1 c2 = (Inl e, w2) \<longrightarrow> w2 = w1"
    using get_session_Inl by blast
  from A B show ?thesis by (rule conjI)
qed

theorem get_session_other_name_replaces_handle_witness:
  "get_session two_connections fresh_world (Positional (Some ''alpha'')) = (Inr 0, alpha_cached)
   \<and> get_session two_connections alpha_cached (Positional (Some ''beta'')) = (Inr 1, beta_cached)
   \<and> (1::nat) \<noteq> 0 \<and> cache beta_cached = Some (Positional (Some ''beta''), 1)"
proof -
  have v: "cache_valid fresh_world" by (simp add: cache_valid_def fresh_world_def)
  have ne: "Positional (Some ''beta'') \<noteq> Positional (Some ''alpha'')" by simp
  note t = get_session_other_name_replaces_handle
             [of fresh_world two_connections "Positional (Some ''alpha'')" 0 alpha_cached "Positional (Some ''beta'')" 1 beta_cached]
  from t v ne get_session_alpha_first get_session_beta_second
  have "(1::nat) \<noteq> 0 \<and> cache beta_cached = Some (Positional (Some ''beta''), 1)" by blast
  with get_session_alpha_first get_session_beta_second show ?thesis by blast
qed

text \<open>
  C3, as the claim states it, fails: with \<open>alpha\<close> and \<open>beta\<close> in the
  credential store and no cache-clear, the call for \<open>beta\<close> returns the new
  handle 1 and the slot that held handle 0 for \<open>alpha\<close> now holds handle 1
  for \<open>beta\<close>.
\<close>

theorem get_session_second_name_evicts:
  "fst (get_session two_connections fresh_world (Positional (Some ''alpha''))) = Inr 0
   \<and> cache (snd (get_session two_connections fresh_world (Positional (Some ''alpha''))))
       = Some (Positional (Some ''alpha''), 0)
   \<and> fst (get_session two_connections
             (snd (get_session two_connections fresh_world (Positional (Some ''alpha'')))) (Positional (Some ''beta'')))
       = Inr 1
   \<and> cache (snd (get_session two_connections
                    (snd (get_session two_connections fresh_world (Positional (Some ''alpha''))))
                    (Positional (Some ''beta''))))
       = Some (Positional (Some ''beta''), 1)"
  by (simp add: get_session_alpha_first get_session_beta_second)
     (simp add: alpha_cached_def beta_cached_def)

section \<open>Execution of the rendered statements\<close>

text \<open>Every non-empty statement handed to the loop is sent, in order, whatever
  the service answers, as long as the warnings can be printed.\<close>

lemma run_statements_executed:
  assumes "verbose \<longrightarrow> (\<forall>m. console_print ex m = None)"
  shows "\<exists>w'. run_statements ex verbose session stmts w = (Inr (), w')
              \<and> map snd (executed w') = map snd (executed w) @ filter (\<lambda>s. s \<noteq> []) stmts"
proof (induction stmts arbitrary: w)
  case Nil
  then show ?case by simp
next
  case (Cons stmt rest)
  show ?case
  proof (cases "stmt = []")
    case True
    then show ?thesis using Cons.IH[of w] by simp
  next
    case False
    let ?sent = "w\<lparr>executed := executed w @ [(session, stmt)]\<rparr>"
    show ?thesis
    proof (cases "session_sql ex (executed w) session stmt")
      case None
      with False show ?thesis using Cons.IH[of ?sent] by simp
    next
      case (Some e)
      obtain w1 where s: "say_if verbose ex [''[yellow]Warning:[/] '' @ e] ?sent = (Inr (), w1)"
        and x: "executed w1 = executed ?sent"
        using say_if_accepted[OF assms, of "[''[yellow]Warning:[/] '' @ e]" ?sent] by blast
      with False Some show ?thesis using Cons.IH[of w1] by simp
    qed
  qed
qed


lemma run_statements_all_succeed:
  "(\<And>h s q. session_sql ex h s q = None) \<Longrightarrow>
   run_statements ex verbose session stmts w
     = (Inr (), w\<lparr>executed := executed w @ map (Pair session) (filter (\<lambda>s. s \<noteq> []) stmts)\<rparr>)"
  by (induction stmts arbitrary: w) simp_all

lemma setup_default_statements:
  "statements (setup_sql ''ml_accelerator'' ''ML_ACCELERATOR'' ''ALLOW_ALL_INTEGRATION''
     (port_list_of [443, 80]) ''DEV_STAGE'' ''ml_accelerator_pool'' 1 1 ''CPU_X64_M'')
   = [''USE DATABASE ML_ACCELERATOR'']"
  by code_simp

lemma teardown_default_statements:
  "statements (teardown_sql ''ml_dev'' ''ML_DEV'' ''ml_dev_pool'' ''DEV_STAGE''
     ''ALLOW_ALL_INTEGRATION'' False False)
   = [''ALTER COMPUTE POOL IF EXISTS ml_dev_pool SUSPEND'',
      ''DROP COMPUTE POOL IF EXISTS ml_dev_pool'',
      ''DROP NETWORK RULE IF EXISTS ML_DEV.PUBLIC.ALLOW_ALL_INTEGRATION_rule'']"
  by code_simp

lemma two_connections_quiet:
  "session_sql two_connections h s q = None" "console_print two_connections m = None"
  by (simp_all add: two_connections_def bare_externals_def)

lemma get_session_alpha_after_prints:
  "get_session two_connections (fresh_world\<lparr>printed := ms\<rparr>) (Positional (Some ''alpha''))
   = (Inr 0, alpha_cached\<lparr>printed := ms\<rparr>)"
  by (simp add: get_session_def get_session_body_def get_connection_config_def or_else_def
      passed_name_def two_connections_def bare_externals_def fresh_world_def alpha_cached_def)

text \<open>
  C1. With execution requested, \<open>setup\<close> and \<open>teardown\<close> are meant to
  send every statement of the rendered text to the session. They do not: a
  piece of the text that begins with a comment line is dropped together with
  the statement under the comment. With the default arguments \<open>setup\<close>
  sends the single statement \<open>USE DATABASE\<close>; \<open>teardown\<close>, asked to drop
  the stage and the database as well, sends three statements, none of them
  the use-role, stop-all, drop-integration, drop-stage or drop-database
  statement. The loop itself does go on after a failure whenever the warning
  can be printed, as \<open>run_statements_executed\<close> shows.
\<close>

theorem setup_infra_skips_commented_statements:
  "executed (snd (setup_infra two_connections fresh_world ''alpha'' ''ml_accelerator''
                    ''ML_ACCELERATOR'' ''CPU_X64_M'' ''DEV_STAGE'' None
                    ''ALLOW_ALL_INTEGRATION'' None 1 1 True True))
     = [(0, ''USE DATABASE ML_ACCELERATOR'')]
   \<and> executed (snd (teardown two_connections fresh_world ''alpha'' ''ml_dev'' ''ML_DEV'' None
                       ''DEV_STAGE'' ''ALLOW_ALL_INTEGRATION'' False False True True))
     = [(0, ''ALTER COMPUTE POOL IF EXISTS ml_dev_pool SUSPEND''),
        (0, ''DROP COMPUTE POOL IF EXISTS ml_dev_pool''),
        (0, ''DROP NETWORK RULE IF EXISTS ML_DEV.PUBLIC.ALLOW_ALL_INTEGRATION_rule'')]"
proof -
  have say: "\<And>ms w. say_if True two_connections ms w = (Inr (), w\<lparr>printed := printed w @ ms\<rparr>)"
    by (simp add: say_if_def say_all_accepted two_connections_quiet)
  have run: "\<And>stmts w. run_statements two_connections True 0 stmts w
     = (Inr (), w\<lparr>executed := executed w @ map (Pair 0) (filter (\<lambda>s. s \<noteq> []) stmts)\<rparr>)"
    by (rule run_statements_all_succeed) (rule two_connections_quiet)
  have fw: "printed fresh_world = []" "executed alpha_cached = []"
    by (simp_all add: fresh_world_def alpha_cached_def)
  show ?thesis
    by (simp add: setup_infra_def teardown_def or_else_def and_then_def done_with_def say run fw
        get_session_alpha_after_prints setup_default_statements teardown_default_statements
        Let_def)
qed

section \<open>Occurrences of a statement in the rendered text\<close>

lemma count_sub_zero_iff: "count_sub P s = 0 \<longleftrightarrow> \<not> sublist P s"
  by (induction s) (auto simp: sublist_Cons_right)

lemma clash_iff:
  "clash P rest \<longleftrightarrow> (\<exists>a b. P = a @ b \<and> a \<noteq> [] \<and> b \<noteq> [] \<and> prefix b rest)"
proof (induction P)
  case Nil
  then show ?case by simp
next
  case (Cons p ps)
  show ?case
  proof
    assume "clash (p # ps) rest"
    then consider "ps \<noteq> [] \<and> prefix ps rest" | "clash ps rest" by auto
    then show "\<exists>a b. p # ps = a @ b \<and> a \<noteq> [] \<and> b \<noteq> [] \<and> prefix b rest"
    proof cases
      case 1
      then have "p # ps = [p] @ ps \<and> [p] \<noteq> [] \<and> ps \<noteq> [] \<and> prefix ps rest" by simp
      then show ?thesis by blast
    next
      case 2
      with Cons.IH obtain a b where "ps = a @ b" "a \<noteq> []" "b \<noteq> []" "prefix b rest" by blast
      then have "p # ps = (p # a) @ b \<and> p # a \<noteq> [] \<and> b \<noteq> [] \<and> prefix b rest" by simp
      then show ?thesis by blast
    qed
  next
    assume "\<exists>a b. p # ps = a @ b \<and> a \<noteq> [] \<and> b \<noteq> [] \<and> prefix b rest"
    then obtain a b where ab: "p # ps = a @ b" "a \<noteq> []" "b \<noteq> []" "prefix b rest" by blast
    then obtain a' where a: "a = p # a'" by (cases a) auto
    show "clash (p # ps) rest"
    proof (cases "a' = []")
      case True
      with ab a show ?thesis by simp
    next
      case False
      with ab a have "ps = a' @ b \<and> a' \<noteq> [] \<and> b \<noteq> [] \<and> prefix b rest" by simp
      with Cons.IH have "clash ps rest" by blast
      then show ?thesis by simp
    qed
  qed
qed

lemma prefix_straddle:
  assumes "prefix P (x @ rest)" "x \<noteq> []" "\<not> sublist P x"
  shows "clash P rest"
proof -
  from assms(1) consider "prefix P x" | us where "P = x @ us" "prefix us rest"
    by (auto simp: prefix_append)
  then show ?thesis
  proof cases
    case 1
    then have "sublist P x" by (rule prefix_imp_sublist)
    with assms(3) show ?thesis by simp
  next
    case 2
    have "us \<noteq> []"
    proof
      assume "us = []"
      with 2 have "P = x" by simp
      with assms(3) show False by simp
    qed
    with 2 assms(2) show ?thesis unfolding clash_iff by blast
  qed
qed

lemma count_sub_skip:
  "\<not> sublist P x \<Longrightarrow> \<not> clash P rest \<Longrightarrow> count_sub P (x @ rest) = count_sub P rest"
proof (induction x)
  case Nil
  then show ?case by simp
next
  case (Cons y ys)
  have "\<not> prefix P ((y # ys) @ rest)"
    using prefix_straddle[of P "y # ys" rest] Cons.prems by blast
  moreover have "\<not> sublist P ys" using Cons.prems(1) by (simp add: sublist_Cons_right)
  ultimately show ?case using Cons by simp
qed

lemma prefix_past_sep:
  assumes "c \<notin> set P" shows "prefix P (a @ c # b) \<longleftrightarrow> prefix P a"
proof
  assume "prefix P (a @ c # b)"
  then consider "prefix P a" | us where "P = a @ us" "prefix us (c # b)"
    by (auto simp: prefix_append)
  then show "prefix P a"
  proof cases
    case 1 then show ?thesis .
  next
    case 2
    show ?thesis
    proof (cases us)
      case Nil
      with 2 show ?thesis by simp
    next
      case (Cons u us')
      with 2 have "u = c" by simp
      with 2 Cons assms show ?thesis by simp
    qed
  qed
next
  assume "prefix P a" then show "prefix P (a @ c # b)" by (rule prefix_prefix)
qed

lemma count_sub_sep:
  assumes "c \<notin> set P" "P \<noteq> []"
  shows "count_sub P (a @ c # b) = count_sub P a + count_sub P b"
proof (induction a)
  case Nil
  from assms obtain p ps where "P = p # ps" "p \<noteq> c" by (cases P) auto
  then show ?case by simp
next
  case (Cons y ys)
  have "prefix P ((y # ys) @ c # b) \<longleftrightarrow> prefix P (y # ys)"
    using assms(1) by (rule prefix_past_sep)
  with Cons show ?case by simp
qed


lemma count_sub_join:
  assumes "c \<notin> set P" "P \<noteq> []"
  shows "count_sub P (join [c] parts) = sum_list (map (count_sub P) parts)"
proof (induction "[c]" parts rule: join.induct)
  case 1
  with assms show ?case by simp
next
  case (2 x)
  then show ?case by simp
next
  case (3 x y ys)
  have "count_sub P (x @ c # join [c] (y # ys)) = count_sub P x + count_sub P (join [c] (y # ys))"
    using assms by (rule count_sub_sep)
  with 3 show ?case by simp
qed











lemma count_sub_none: "\<not> sublist P x \<Longrightarrow> count_sub P x = 0"
  by (simp add: count_sub_zero_iff)


lemma not_sublist_append:
  assumes "\<not> sublist P x" "\<not> sublist P lit" "\<not> clash P lit"
  shows "\<not> sublist P (x @ lit)"
proof -
  have "count_sub P (x @ lit) = count_sub P lit" using assms(1,3) by (rule count_sub_skip)
  also have "\<dots> = 0" using assms(2) by (rule count_sub_none)
  finally show ?thesis by (simp add: count_sub_zero_iff)
qed

lemma effective_pool_free:
  assumes "\<not> sublist P project_name" "\<not> sublist P (or_else pool_name [])"
    and "\<not> sublist P ''_pool''" "\<not> clash P ''_pool''"
  shows "\<not> sublist P (or_else pool_name (project_name @ ''_pool''))"
proof (cases "\<exists>c cs. pool_name = Some (c # cs)")
  case True
  then obtain c cs where "pool_name = Some (c # cs)" by blast
  with assms(2) show ?thesis by (simp add: or_else_def)
next
  case False
  then have "or_else pool_name (project_name @ ''_pool'') = project_name @ ''_pool''"
    by (cases pool_name; cases "the pool_name") (simp_all add: or_else_def)
  with assms(1,3,4) show ?thesis by (simp add: not_sublist_append)
qed


lemma teardown_sql_no_drop_stage:
  assumes "\<not> sublist ''DROP STAGE'' project_name" "\<not> sublist ''DROP STAGE'' database"
    and "\<not> sublist ''DROP STAGE'' pool_name" "\<not> sublist ''DROP STAGE'' eai_name"
  shows "\<not> sublist ''DROP STAGE''
           (teardown_sql project_name database pool_name stage_name eai_name True True)"
proof -
  have nl: "CHR 0x0A \<notin> set ''DROP STAGE''" "''DROP STAGE'' \<noteq> []" by simp_all
  note z = assms[THEN count_sub_none]
  note sk = assms[THEN count_sub_skip]
  have "count_sub ''DROP STAGE''
          (teardown_sql project_name database pool_name stage_name eai_name True True) = 0"
    unfolding teardown_sql_def teardown_sql_parts_def
    by (subst count_sub_join[OF nl]) (simp add: z sk)
  then show ?thesis by (rule iffD1[OF count_sub_zero_iff])
qed

lemma teardown_sql_no_drop_database:
  assumes "\<not> sublist ''DROP DATABASE'' project_name" "\<not> sublist ''DROP DATABASE'' database"
    and "\<not> sublist ''DROP DATABASE'' pool_name" "\<not> sublist ''DROP DATABASE'' eai_name"
  shows "\<not> sublist ''DROP DATABASE''
           (teardown_sql project_name database pool_name stage_name eai_name True True)"
proof -
  have nl: "CHR 0x0A \<notin> set ''DROP DATABASE''" "''DROP DATABASE'' \<noteq> []" by simp_all
  note z = assms[THEN count_sub_none]
  note sk = assms[THEN count_sub_skip]
  have "count_sub ''DROP DATABASE''
          (teardown_sql project_name database pool_name stage_name eai_name True True) = 0"
    unfolding teardown_sql_def teardown_sql_parts_def
    by (subst count_sub_join[OF nl]) (simp add: z sk)
  then show ?thesis by (rule iffD1[OF count_sub_zero_iff])
qed

lemma teardown_sql_one_drop_stage:
  assumes "\<not> sublist ''DROP STAGE IF EXISTS'' project_name"
    and "\<not> sublist ''DROP STAGE IF EXISTS'' database"
    and "\<not> sublist ''DROP STAGE IF EXISTS'' pool_name"
    and "\<not> sublist ''DROP STAGE IF EXISTS'' stage_name"
    and "\<not> sublist ''DROP STAGE IF EXISTS'' eai_name"
  shows "count_sub ''DROP STAGE IF EXISTS''
           (teardown_sql project_name database pool_name stage_name eai_name
              False keep_database) = 1"
proof -
  let ?P = "''DROP STAGE IF EXISTS''"
  have nl: "CHR 0x0A \<notin> set ?P" "?P \<noteq> []" by simp_all
  note no = assms
  note z = no[THEN count_sub_none]
  note sk = no[THEN count_sub_skip]
  show ?thesis
    unfolding teardown_sql_def teardown_sql_parts_def
    by (cases keep_database; subst count_sub_join[OF nl]) (simp_all add: z sk)
qed

lemma teardown_sql_contains_drop_stage:
  "sublist (''DROP STAGE IF EXISTS '' @ database @ ''.PUBLIC.'' @ stage_name @ '';'')
     (teardown_sql project_name database pool_name stage_name eai_name False keep_database)"
proof -
  let ?stmt = "''DROP STAGE IF EXISTS '' @ database @ ''.PUBLIC.'' @ stage_name @ '';''"
  let ?pre = "join ''\<newline>''
     [''-- Teardown for project: '' @ project_name,
      ''USE ROLE ACCOUNTADMIN;'',
      ''\<newline>-- Suspend and drop compute pool'',
      ''ALTER COMPUTE POOL IF EXISTS '' @ pool_name @ '' STOP ALL;'',
      ''ALTER COMPUTE POOL IF EXISTS '' @ pool_name @ '' SUSPEND;'',
      ''DROP COMPUTE POOL IF EXISTS '' @ pool_name @ '';'',
      ''\<newline>-- Drop External Access Integration'',
      ''DROP INTEGRATION IF EXISTS '' @ eai_name @ '';'',
      ''DROP NETWORK RULE IF EXISTS '' @ database @ ''.PUBLIC.'' @ eai_name @ ''_rule;'',
      ''\<newline>-- Drop Stage (WARNING: deletes all files!)''] @ ''\<newline>''"
  let ?post = "if keep_database then []
               else ''\<newline>\<newline>-- Drop Database\<newline>DROP DATABASE IF EXISTS '' @ database @ '';''"
  have "teardown_sql project_name database pool_name stage_name eai_name False keep_database
          = ?pre @ ?stmt @ ?post"
    unfolding teardown_sql_def teardown_sql_parts_def by (cases keep_database) simp_all
  then show ?thesis by (simp only: sublist_appendI)
qed

lemma teardown_result_sql:
  assumes "teardown ex w connection_name project_name database pool_name stage_name eai_name
             keep_stage keep_database execute verbose = (Inr result, w')"
  shows "map_of result ''sql''
           = Some (PStr (teardown_sql project_name database
                           (or_else pool_name (project_name @ ''_pool'')) stage_name eai_name
                           keep_stage keep_database))"
proof -
  let ?sql = "teardown_sql project_name database
                (or_else pool_name (project_name @ ''_pool'')) stage_name eai_name
                keep_stage keep_database"
  let ?base = "[(''project_name'', PStr project_name), (''database'', PStr database),
                (''compute_pool'', PStr (or_else pool_name (project_name @ ''_pool''))),
                (''stage_preserved'', PBool keep_stage),
                (''database_preserved'', PBool keep_database), (''sql'', PStr ?sql)]"
  have shape: "\<exists>status. result = ?base @ [(''status'', status)]"
  proof (cases execute)
    case False
    with assms show ?thesis
      unfolding teardown_def Let_def
      by (auto elim!: and_then_InrE simp: done_with_def)
  next
    case True
    with assms show ?thesis
      unfolding teardown_def Let_def
      by (auto elim!: and_then_InrE simp: done_with_def)
  qed
  then obtain status where "result = ?base @ [(''status'', status)]" by blast
  then show ?thesis by simp
qed



lemma bare_console: "console_print bare_externals m = None"
  by (simp add: bare_externals_def)


lemma teardown_dry_run_bare:
  "sql_of (fst (teardown bare_externals w connection_name project_name database pool_name
                  stage_name eai_name keep_stage keep_database False verbose))
   = teardown_sql project_name database (or_else pool_name (project_name @ ''_pool''))
       stage_name eai_name keep_stage keep_database"
  by (simp add: teardown_def Let_def and_then_def done_with_def say_if_def sql_of_def
        say_all_listed bare_console list_all_iff del: say_all.simps)

section \<open>The text rendered by setup\<close>






section \<open>The text rendered by teardown\<close>

text \<open>
  C5, as the code has it. The sql field of what \<open>teardown\<close> returns is the
  rendered text. With \<open>keep_stage\<close> and \<open>keep_database\<close> both true the
  text contains neither \<open>DROP STAGE\<close> nor \<open>DROP DATABASE\<close>, provided that
  no interpolated argument (project name, database, pool name when given,
  integration name) contains either text itself. With \<open>keep_stage\<close> false
  the text contains \<open>DROP STAGE IF EXISTS\<close> exactly once, in the statement
  that names the database and the stage, provided that no interpolated
  argument (those and the stage name) contains that text itself.
\<close>

theorem teardown_drop_statements:
  "(teardown ex w connection_name project_name database pool_name stage_name eai_name
      keep_stage keep_database execute verbose = (Inr result, w')
    \<longrightarrow> map_of result ''sql''
          = Some (PStr (teardown_sql project_name database
                          (or_else pool_name (project_name @ ''_pool'')) stage_name eai_name
                          keep_stage keep_database)))
   \<and> (list_all (\<lambda>a. \<not> sublist ''DROP STAGE'' a \<and> \<not> sublist ''DROP DATABASE'' a)
         [project_name, database, or_else pool_name [], eai_name]
    \<longrightarrow> \<not> sublist ''DROP STAGE''
            (teardown_sql project_name database
               (or_else pool_name (project_name @ ''_pool'')) stage_name eai_name True True)
      \<and> \<not> sublist ''DROP DATABASE''
            (teardown_sql project_name database
               (or_else pool_name (project_name @ ''_pool'')) stage_name eai_name True True))
   \<and> (list_all (\<lambda>a. \<not> sublist ''DROP STAGE IF EXISTS'' a)
         [project_name, database, or_else pool_name [], stage_name, eai_name]
    \<longrightarrow> count_sub ''DROP STAGE IF EXISTS''
            (teardown_sql project_name database
               (or_else pool_name (project_name @ ''_pool'')) stage_name eai_name
               False keep_database) = 1
      \<and> sublist (''DROP STAGE IF EXISTS '' @ database @ ''.PUBLIC.'' @ stage_name @ '';'')
            (teardown_sql project_name database
               (or_else pool_name (project_name @ ''_pool'')) stage_name eai_name
               False keep_database))"
proof -
  let ?pool = "or_else pool_name (project_name @ ''_pool'')"
  have A: "teardown ex w connection_name project_name database pool_name stage_name eai_name
      keep_stage keep_database execute verbose = (Inr result, w')
    \<longrightarrow> map_of result ''sql''
          = Some (PStr (teardown_sql project_name database ?pool stage_name eai_name
                          keep_stage keep_database))"
    using teardown_result_sql by blast
  have B: "list_all (\<lambda>a. \<not> sublist ''DROP STAGE'' a \<and> \<not> sublist ''DROP DATABASE'' a)
         [project_name, database, or_else pool_name [], eai_name]
    \<longrightarrow> \<not> sublist ''DROP STAGE''
            (teardown_sql project_name database ?pool stage_name eai_name True True)
      \<and> \<not> sublist ''DROP DATABASE''
            (teardown_sql project_name database ?pool stage_name eai_name True True)"
  proof
    assume "list_all (\<lambda>a. \<not> sublist ''DROP STAGE'' a \<and> \<not> sublist ''DROP DATABASE'' a)
         [project_name, database, or_else pool_name [], eai_name]"
    then have s: "\<not> sublist ''DROP STAGE'' project_name" "\<not> sublist ''DROP STAGE'' database"
        "\<not> sublist ''DROP STAGE'' (or_else pool_name [])" "\<not> sublist ''DROP STAGE'' eai_name"
      and d: "\<not> sublist ''DROP DATABASE'' project_name" "\<not> sublist ''DROP DATABASE'' database"
        "\<not> sublist ''DROP DATABASE'' (or_else pool_name [])"
        "\<not> sublist ''DROP DATABASE'' eai_name"
      by simp_all
    have ps: "\<not> sublist ''DROP STAGE'' ?pool"
      using s(1,3) by (rule effective_pool_free) (simp_all add: sublist_code)
    have pd: "\<not> sublist ''DROP DATABASE'' ?pool"
      using d(1,3) by (rule effective_pool_free) (simp_all add: sublist_code)
    show "\<not> sublist ''DROP STAGE''
            (teardown_sql project_name database ?pool stage_name eai_name True True)
      \<and> \<not> sublist ''DROP DATABASE''
            (teardown_sql project_name database ?pool stage_name eai_name True True)"
      using teardown_sql_no_drop_stage[OF s(1,2) ps s(4)]
            teardown_sql_no_drop_database[OF d(1,2) pd d(4)] by (rule conjI)
  qed
  have C: "list_all (\<lambda>a. \<not> sublist ''DROP STAGE IF EXISTS'' a)
         [project_name, database, or_else pool_name [], stage_name, eai_name]
    \<longrightarrow> count_sub ''DROP STAGE IF EXISTS''
            (teardown_sql project_name database ?pool stage_name eai_name
               False keep_database) = 1
      \<and> sublist (''DROP STAGE IF EXISTS '' @ database @ ''.PUBLIC.'' @ stage_name @ '';'')
            (teardown_sql project_name database ?pool stage_name eai_name
               False keep_database)"
  proof
    assume "list_all (\<lambda>a. \<not> sublist ''DROP STAGE IF EXISTS'' a)
         [project_name, database, or_else pool_name [], stage_name, eai_name]"
    then have s: "\<not> sublist ''DROP STAGE IF EXISTS'' project_name"
        "\<not> sublist ''DROP STAGE IF EXISTS'' database"
        "\<not> sublist ''DROP STAGE IF EXISTS'' (or_else pool_name [])"
        "\<not> sublist ''DROP STAGE IF EXISTS'' stage_name"
        "\<not> sublist ''DROP STAGE IF EXISTS'' eai_name"
      by simp_all
    have ps: "\<not> sublist ''DROP STAGE IF EXISTS'' ?pool"
      using s(1,3) by (rule effective_pool_free) (simp_all add: sublist_code)
    show "count_sub ''DROP STAGE IF EXISTS''
            (teardown_sql project_name database ?pool stage_name eai_name
               False keep_database) = 1
      \<and> sublist (''DROP STAGE IF EXISTS '' @ database @ ''.PUBLIC.'' @ stage_name @ '';'')
            (teardown_sql project_name database ?pool stage_name eai_name
               False keep_database)"
      using teardown_sql_one_drop_stage[OF s(1,2) ps s(4,5)]
            teardown_sql_contains_drop_stage by (rule conjI)
  qed
  from A B C show ?thesis by (intro conjI)
qed

theorem teardown_drop_statements_witness:
  "list_all (\<lambda>a. \<not> sublist ''DROP STAGE'' a \<and> \<not> sublist ''DROP DATABASE'' a)
     [''ml_dev'', ''ML_DEV'', or_else None [], ''ALLOW_ALL_INTEGRATION'']
   \<and> list_all (\<lambda>a. \<not> sublist ''DROP STAGE IF EXISTS'' a)
     [''ml_dev'', ''ML_DEV'', or_else None [], ''DEV_STAGE'', ''ALLOW_ALL_INTEGRATION'']
   \<and> \<not> sublist ''DROP STAGE''
        (sql_of (fst (teardown bare_externals fresh_world ''alpha'' ''ml_dev'' ''ML_DEV'' None
                        ''DEV_STAGE'' ''ALLOW_ALL_INTEGRATION'' True True False True)))
   \<and> \<not> sublist ''DROP DATABASE''
        (sql_of (fst (teardown bare_externals fresh_world ''alpha'' ''ml_dev'' ''ML_DEV'' None
                        ''DEV_STAGE'' ''ALLOW_ALL_INTEGRATION'' True True False True)))
   \<and> count_sub ''DROP STAGE IF EXISTS''
        (sql_of (fst (teardown bare_externals fresh_world ''alpha'' ''ml_dev'' ''ML_DEV'' None
                        ''DEV_STAGE'' ''ALLOW_ALL_INTEGRATION'' False True False True))) = 1"
proof -
  have h1: "list_all (\<lambda>a. \<not> sublist ''DROP STAGE'' a \<and> \<not> sublist ''DROP DATABASE'' a)
     [''ml_dev'', ''ML_DEV'', or_else None [], ''ALLOW_ALL_INTEGRATION'']"
    by (simp add: or_else_def sublist_code)
  have h2: "list_all (\<lambda>a. \<not> sublist ''DROP STAGE IF EXISTS'' a)
     [''ml_dev'', ''ML_DEV'', or_else None [], ''DEV_STAGE'', ''ALLOW_ALL_INTEGRATION'']"
    by (simp add: or_else_def sublist_code)
  obtain kept wk where k: "teardown bare_externals fresh_world ''alpha'' ''ml_dev'' ''ML_DEV''
      None ''DEV_STAGE'' ''ALLOW_ALL_INTEGRATION'' True True False True = (Inr kept, wk)"
    by (simp add: teardown_def Let_def and_then_def done_with_def say_if_def say_all_listed
          bare_console list_all_iff del: say_all.simps)
  obtain dropped wd where d: "teardown bare_externals fresh_world ''alpha'' ''ml_dev''
      ''ML_DEV'' None ''DEV_STAGE'' ''ALLOW_ALL_INTEGRATION'' False True False True
      = (Inr dropped, wd)"
    by (simp add: teardown_def Let_def and_then_def done_with_def say_if_def say_all_listed
          bare_console list_all_iff del: say_all.simps)
  note tk = teardown_drop_statements[of bare_externals fresh_world "''alpha''" "''ml_dev''"
             "''ML_DEV''" None "''DEV_STAGE''" "''ALLOW_ALL_INTEGRATION''" True True False True
             kept wk]
  note td = teardown_drop_statements[of bare_externals fresh_world "''alpha''" "''ml_dev''"
             "''ML_DEV''" None "''DEV_STAGE''" "''ALLOW_ALL_INTEGRATION''" False True False True
             dropped wd]
  from tk k have "map_of kept ''sql''
      = Some (PStr (teardown_sql ''ml_dev'' ''ML_DEV'' (or_else None (''ml_dev'' @ ''_pool''))
                      ''DEV_STAGE'' ''ALLOW_ALL_INTEGRATION'' True True))" by blast
  with k have sk: "sql_of (fst (teardown bare_externals fresh_world ''alpha'' ''ml_dev''
      ''ML_DEV'' None ''DEV_STAGE'' ''ALLOW_ALL_INTEGRATION'' True True False True))
      = teardown_sql ''ml_dev'' ''ML_DEV'' (or_else None (''ml_dev'' @ ''_pool''))
          ''DEV_STAGE'' ''ALLOW_ALL_INTEGRATION'' True True"
    by (simp add: sql_of_def)
  from td d have "map_of dropped ''sql''
      = Some (PStr (teardown_sql ''ml_dev'' ''ML_DEV'' (or_else None (''ml_dev'' @ ''_pool''))
                      ''DEV_STAGE'' ''ALLOW_ALL_INTEGRATION'' False True))" by blast
  with d have sd: "sql_of (fst (teardown bare_externals fresh_world ''alpha'' ''ml_dev''
      ''ML_DEV'' None ''DEV_STAGE'' ''ALLOW_ALL_INTEGRATION'' False True False True))
      = teardown_sql ''ml_dev'' ''ML_DEV'' (or_else None (''ml_dev'' @ ''_pool''))
          ''DEV_STAGE'' ''ALLOW_ALL_INTEGRATION'' False True"
    by (simp add: sql_of_def)
  from tk h1 have a: "\<not> sublist ''DROP STAGE''
            (teardown_sql ''ml_dev'' ''ML_DEV'' (or_else None (''ml_dev'' @ ''_pool''))
               ''DEV_STAGE'' ''ALLOW_ALL_INTEGRATION'' True True)
      \<and> \<not> sublist ''DROP DATABASE''
            (teardown_sql ''ml_dev'' ''ML_DEV'' (or_else None (''ml_dev'' @ ''_pool''))
               ''DEV_STAGE'' ''ALLOW_ALL_INTEGRATION'' True True)" by blast
  from td h2 have b: "count_sub ''DROP STAGE IF EXISTS''
            (teardown_sql ''ml_dev'' ''ML_DEV'' (or_else None (''ml_dev'' @ ''_pool''))
               ''DEV_STAGE'' ''ALLOW_ALL_INTEGRATION'' False True) = 1" by blast
  from a b h1 h2 show ?thesis unfolding sk sd by blast
qed

text \<open>
  C5, as the claim states it for every argument tuple, fails: with both keep
  flags true, an integration name that carries a second statement puts
  \<open>DROP DATABASE\<close> into the text.
\<close>

theorem teardown_injected_drop_database:
  "sublist ''DROP DATABASE''
     (sql_of (fst (teardown bare_externals fresh_world ''alpha'' ''ml_dev'' ''ML_DEV'' None
                     ''DEV_STAGE'' ''X;\<newline>DROP DATABASE PROD'' True True False True)))"
  unfolding teardown_dry_run_bare by code_simp

end
